theory Spec2Isabelle
  imports Main "HOL-Library.Sublist"
begin

section \<open>The resume chatbot of \<^verbatim>\<open>1_foundations/app.py\<close>\<close>

text \<open>
  The module answers chat messages on behalf of one person. A turn (\<^verbatim>\<open>Me.chat\<close>) asks
  four OpenAI-compatible providers in a fixed priority order for a completion, runs the
  tool calls a completion requests (\<^verbatim>\<open>Me.handle_tool_call\<close>), and repeats until a
  completion is a plain answer or no provider answers.

  Python strings are modelled as \<^typ>\<open>string\<close>, one \<^typ>\<open>char\<close> per code point below
  256. Exceptions are values of type \<open>exn\<close>; a Python function that may raise returns
  \<open>exn + 'a\<close>, with \<open>Inl\<close> for the exception.
\<close>

subsection \<open>Exceptions and values\<close>

datatype exn =
    JSONDecodeError
  | TypeError
  | IndexError
  | AttributeError
  | RuntimeError string
  | Failure string
    \<comment> \<open>any other \<^verbatim>\<open>Exception\<close> raised by a library: a network error, an API error, ...\<close>

text \<open>
  The values a callable reached by \<^verbatim>\<open>handle_tool_call\<close> returns: \<^verbatim>\<open>None\<close>, a
  \<^verbatim>\<open>bool\<close>, a \<^verbatim>\<open>dict\<close> or a \<^verbatim>\<open>tuple\<close> of strings, or an object
  that \<^verbatim>\<open>json.dumps\<close> cannot serialise.
\<close>

datatype pyvalue =
    PyNone
  | PyBool bool
  | PyDict "(string \<times> string) list"
  | PyTuple "string list"
  | PyObject

subsection \<open>The fixed message (lines 12-17)\<close>

definition OUT_OF_TOKENS_MESSAGE :: string where
  "OUT_OF_TOKENS_MESSAGE =
     ''We are currently unable to process your request because your token '' @
     ''allocation appears to be exhausted across all supported providers '' @
     ''(OpenAI, Groq, Gemini, and DeepSeek). Please review your usage '' @
     ''limits or update your billing details before trying again.''"

subsection \<open>\<^verbatim>\<open>get_external_llm_key\<close> (lines 20-49)\<close>

text \<open>
  The function reads the environment only, through \<^verbatim>\<open>os.getenv\<close>, which is its
  argument here: \<open>getenv var\<close> is \<open>None\<close> when the variable is unset. The test
  \<^verbatim>\<open>if api_key:\<close> fails for \<^verbatim>\<open>None\<close> and for the empty string.
\<close>

definition provider_env_map :: "(string \<times> string) list" where
  "provider_env_map =
     [(''openai'', ''OPENAI_API_KEY''),
      (''groq'', ''GROQ_API_KEY''),
      (''gemini'', ''GEMINI_API_KEY''),
      (''deepseek'', ''DEEPSEEK_API_KEY'')]"

fun first_api_key :: "(string \<Rightarrow> string option) \<Rightarrow> (string \<times> string) list \<Rightarrow> (string \<times> string) option" where
  "first_api_key getenv [] = None"
| "first_api_key getenv ((provider, env_var) # rest) =
     (case getenv env_var of
        None \<Rightarrow> first_api_key getenv rest
      | Some api_key \<Rightarrow>
          if api_key = [] then first_api_key getenv rest else Some (provider, api_key))"

definition get_external_llm_key :: "(string \<Rightarrow> string option) \<Rightarrow> exn + string \<times> string" where
  "get_external_llm_key getenv =
     (case first_api_key getenv provider_env_map of
        Some found \<Rightarrow> Inr found
      | None \<Rightarrow> Inl (RuntimeError OUT_OF_TOKENS_MESSAGE))"

text \<open>
  The contract of the provider registry in the spec's words. A credential slot holds a
  credential when the variable is set to a non-empty string; empty or absent means that
  the provider is unavailable. The registry gives the first provider, in the order
  openai, groq, gemini, deepseek, whose credential is present, or "none available".
\<close>

definition credential :: "(string \<Rightarrow> string option) \<Rightarrow> string \<Rightarrow> string option" where
  "credential getenv env_var =
     (case getenv env_var of None \<Rightarrow> None | Some api_key \<Rightarrow> if api_key = [] then None else Some api_key)"

definition present :: "(string \<Rightarrow> string option) \<Rightarrow> string \<Rightarrow> bool" where
  "present getenv env_var = (credential getenv env_var \<noteq> None)"

definition resolve_active_provider :: "(string \<Rightarrow> string option) \<Rightarrow> (string \<times> string) option" where
  "resolve_active_provider getenv =
     (case credential getenv ''OPENAI_API_KEY'' of
        Some api_key \<Rightarrow> Some (''openai'', api_key)
      | None \<Rightarrow>
     (case credential getenv ''GROQ_API_KEY'' of
        Some api_key \<Rightarrow> Some (''groq'', api_key)
      | None \<Rightarrow>
     (case credential getenv ''GEMINI_API_KEY'' of
        Some api_key \<Rightarrow> Some (''gemini'', api_key)
      | None \<Rightarrow>
     (case credential getenv ''DEEPSEEK_API_KEY'' of
        Some api_key \<Rightarrow> Some (''deepseek'', api_key)
      | None \<Rightarrow> None))))"

subsection \<open>Messages, tool calls and completions\<close>

text \<open>
  \<^verbatim>\<open>tool_call.function.arguments\<close> is a string that \<^verbatim>\<open>json.loads\<close> parses. It is
  represented by what \<^verbatim>\<open>json.loads\<close> makes of it: \<open>Invalid\<close> when it raises
  \<^verbatim>\<open>JSONDecodeError\<close>, \<open>NonObject\<close> when it returns a list, string, number, bool
  or \<^verbatim>\<open>None\<close>, and \<open>Object kwargs\<close> when it returns a dict, given by its items.
  The values of the dict are strings, the type both advertised schemas declare for every
  property; other values are outside this model.
\<close>

datatype arguments = Invalid | NonObject | Object "(string \<times> string) list"

datatype tool_call =
  ToolCall (tc_id: string) (tc_name: string) (tc_arguments: arguments)

text \<open>The message object of a completion: \<^verbatim>\<open>content\<close> and \<^verbatim>\<open>tool_calls\<close> may be \<^verbatim>\<open>None\<close>.\<close>

datatype completion_message =
  CompletionMessage (msg_content: "string option") (msg_tool_calls: "tool_call list option")

text \<open>
  An element of the transcript: a dict \<^verbatim>\<open>{"role": r, "content": c}\<close>, a dict
  \<^verbatim>\<open>{"role": "tool", "content": c, "tool_call_id": i}\<close>, or a completion's message
  object.
\<close>

datatype message =
    Dict string string
  | ToolDict string string
  | Obj completion_message

text \<open>
  What \<^verbatim>\<open>chat\<close> reads of a completion: \<^verbatim>\<open>choices\<close>, which may be \<^verbatim>\<open>None\<close>
  instead of a list, and of a choice its \<^verbatim>\<open>finish_reason\<close> and its \<^verbatim>\<open>message\<close>, which
  may be \<^verbatim>\<open>None\<close>. Only the comparison of the finish reason with \<^verbatim>\<open>"tool_calls"\<close>
  matters, so a finish reason of \<^verbatim>\<open>None\<close> is as any string other than that.
\<close>

datatype choice =
  Choice (finish_reason: string) (choice_message: "completion_message option")

datatype response = Response (choices: "choice list option")

datatype client_kwargs =
  ClientKwargs (kw_api_key: string) (kw_base_url: "string option")

subsection \<open>The world outside the module\<close>

text \<open>
  What the module calls but does not define is a parameter: a \<open>'w system\<close> gives, over
  a state \<open>'w\<close> of the outside world,
  \<^item> \<open>os_getenv\<close>: \<^verbatim>\<open>os.getenv\<close>, a read of the world;
  \<^item> \<open>new_client\<close>: the constructor \<^verbatim>\<open>OpenAI(**client_kwargs)\<close> of line 176, which
    reads the world and either builds the client or raises;
  \<^item> \<open>completions_create\<close>: \<^verbatim>\<open>client.chat.completions.create\<close> of the client built
    from \<^verbatim>\<open>client_kwargs\<close>, for a model and a transcript (\<^verbatim>\<open>tools=tools\<close> is the same
    constant at every call and is not an argument); it raises, or returns a completion
    or \<^verbatim>\<open>None\<close>;
  \<^item> \<open>requests_post\<close>: \<^verbatim>\<open>requests.post(url, data=...)\<close>, returning the HTTP status
    of the response or raising;
  \<^item> \<open>foreign_call\<close>: a call, by keyword arguments, of a callable whose body is outside
    the module (\<^verbatim>\<open>load_dotenv\<close>, \<^verbatim>\<open>OpenAI\<close>, \<^verbatim>\<open>PdfReader\<close>) or only reads
    files (the class \<^verbatim>\<open>Me\<close>);
  \<^item> \<open>ambient\<close>: the module-level names that depend on how the module is run
    (\<^verbatim>\<open>__name__\<close>, \<^verbatim>\<open>__doc__\<close>, ..., and \<^verbatim>\<open>me\<close> under \<^verbatim>\<open>__main__\<close>), none of
    them callable, each with its truth value.
  Each call may change the world, so a provider may answer differently at every call.
  \<^verbatim>\<open>except Exception\<close> catches every \<open>exn\<close>; \<^verbatim>\<open>KeyboardInterrupt\<close> and
  \<^verbatim>\<open>SystemExit\<close> are not modelled.
\<close>

record 'w system =
  os_getenv :: "'w \<Rightarrow> string \<Rightarrow> string option"
  new_client :: "'w \<Rightarrow> client_kwargs \<Rightarrow> exn option"
  completions_create ::
    "client_kwargs \<Rightarrow> string \<Rightarrow> message list \<Rightarrow> 'w \<Rightarrow> (exn + response option) \<times> 'w"
  requests_post :: "string \<Rightarrow> (string \<times> string option) list \<Rightarrow> 'w \<Rightarrow> (exn + nat) \<times> 'w"
  foreign_call :: "string \<Rightarrow> (string \<times> string) list \<Rightarrow> 'w \<Rightarrow> (exn + pyvalue) \<times> 'w"
  ambient :: "string \<Rightarrow> bool option"

text \<open>
  The state a turn runs in: the world, the list objects \<^verbatim>\<open>history\<close> and
  \<^verbatim>\<open>messages\<close> by address (\<open>fresh\<close> is the next unused address), and a log of
  what the turn did outside: one \<open>Scan\<close> per pass over the providers, listing the
  providers for which the pass went on to build a client, each with what came of it:
  \<open>NoClient e\<close> when the constructor raised \<open>e\<close>, \<open>Raised e\<close> when
  \<^verbatim>\<open>create\<close> raised \<open>e\<close>, \<open>Returned\<close> when \<^verbatim>\<open>create\<close> returned; one
  \<open>Post\<close> per \<^verbatim>\<open>requests.post\<close>; one \<open>Print\<close> per \<^verbatim>\<open>print\<close>. The log is
  read by theorems only.
\<close>

datatype attempt = NoClient exn | Raised exn | Returned

datatype event =
    Scan "(string \<times> attempt) list"
  | Post string "(string \<times> string option) list"
  | Print string

record 'w state =
  world :: 'w
  heap :: "nat \<Rightarrow> message list"
  fresh :: nat
  trace :: "event list"

subsection \<open>\<^verbatim>\<open>push\<close> and the two tools (lines 52-69)\<close>

definition pushover_url :: string where
  "pushover_url = ''https://api.pushover.net/1/messages.json''"

definition push :: "'w system \<Rightarrow> string \<Rightarrow> 'w state \<Rightarrow> (exn + pyvalue) \<times> 'w state" where
  "push sys text s =
     (let data = [(''token'', os_getenv sys (world s) ''PUSHOVER_TOKEN''),
                  (''user'', os_getenv sys (world s) ''PUSHOVER_USER''),
                  (''message'', Some text)];
          (posted, w) = requests_post sys pushover_url data (world s);
          s' = s\<lparr>world := w, trace := trace s @ [Post pushover_url data]\<rparr>
      in case posted of
           Inl e \<Rightarrow> (Inl e, s')
         | Inr status \<Rightarrow> (Inr PyNone, s'))"

definition record_user_details ::
  "'w system \<Rightarrow> string \<Rightarrow> string \<Rightarrow> string \<Rightarrow> 'w state \<Rightarrow> (exn + pyvalue) \<times> 'w state" where
  "record_user_details sys email name notes s =
     (case push sys (''Recording '' @ name @ '' with email '' @ email @ '' and notes '' @ notes) s of
        (Inl e, s') \<Rightarrow> (Inl e, s')
      | (Inr none, s') \<Rightarrow> (Inr (PyDict [(''recorded'', ''ok'')]), s'))"

definition record_unknown_question ::
  "'w system \<Rightarrow> string \<Rightarrow> 'w state \<Rightarrow> (exn + pyvalue) \<times> 'w state" where
  "record_unknown_question sys question s =
     (case push sys (''Recording '' @ question) s of
        (Inl e, s') \<Rightarrow> (Inl e, s')
      | (Inr none, s') \<Rightarrow> (Inr (PyDict [(''recorded'', ''ok'')]), s'))"

text \<open>
  A call \<^verbatim>\<open>f(**kwargs)\<close>: Python raises \<^verbatim>\<open>TypeError\<close> for a keyword that is not a
  parameter of \<open>f\<close> and for a parameter without default that no keyword gives; a
  parameter with a default takes it when its keyword is absent.
\<close>

definition unexpected_keyword :: "(string \<times> string) list \<Rightarrow> string list \<Rightarrow> bool" where
  "unexpected_keyword kwargs params = (\<not> list_all (\<lambda>k. k \<in> set params) (map fst kwargs))"

definition keyword_or :: "(string \<times> string) list \<Rightarrow> string \<Rightarrow> string \<Rightarrow> string" where
  "keyword_or kwargs param dflt = (case map_of kwargs param of None \<Rightarrow> dflt | Some v \<Rightarrow> v)"

definition record_user_details_kw ::
  "'w system \<Rightarrow> (string \<times> string) list \<Rightarrow> 'w state \<Rightarrow> (exn + pyvalue) \<times> 'w state" where
  "record_user_details_kw sys kwargs s =
     (if unexpected_keyword kwargs [''email'', ''name'', ''notes''] then (Inl TypeError, s)
      else case map_of kwargs ''email'' of
             None \<Rightarrow> (Inl TypeError, s)
           | Some email \<Rightarrow>
               record_user_details sys email
                 (keyword_or kwargs ''name'' ''Name not provided'')
                 (keyword_or kwargs ''notes'' ''not provided'') s)"

definition record_unknown_question_kw ::
  "'w system \<Rightarrow> (string \<times> string) list \<Rightarrow> 'w state \<Rightarrow> (exn + pyvalue) \<times> 'w state" where
  "record_unknown_question_kw sys kwargs s =
     (if unexpected_keyword kwargs [''question''] then (Inl TypeError, s)
      else case map_of kwargs ''question'' of
             None \<Rightarrow> (Inl TypeError, s)
           | Some question \<Rightarrow> record_unknown_question sys question s)"

definition push_kw ::
  "'w system \<Rightarrow> (string \<times> string) list \<Rightarrow> 'w state \<Rightarrow> (exn + pyvalue) \<times> 'w state" where
  "push_kw sys kwargs s =
     (if unexpected_keyword kwargs [''text''] then (Inl TypeError, s)
      else case map_of kwargs ''text'' of
             None \<Rightarrow> (Inl TypeError, s)
           | Some text \<Rightarrow> push sys text s)"

definition get_external_llm_key_kw ::
  "'w system \<Rightarrow> (string \<times> string) list \<Rightarrow> 'w state \<Rightarrow> (exn + pyvalue) \<times> 'w state" where
  "get_external_llm_key_kw sys kwargs s =
     (if unexpected_keyword kwargs [] then (Inl TypeError, s)
      else case get_external_llm_key (os_getenv sys (world s)) of
             Inl e \<Rightarrow> (Inl e, s)
           | Inr (provider, api_key) \<Rightarrow> (Inr (PyTuple [provider, api_key]), s))"

subsection \<open>The module namespace and \<^verbatim>\<open>json.dumps\<close>\<close>

text \<open>
  \<^verbatim>\<open>globals().get(tool_name)\<close> looks a name up among every module-level binding. The
  bindings of \<^verbatim>\<open>app.py\<close>: its four functions, the callables whose body is outside the
  module, and objects that are not callable, with their truth value (the imported
  modules, the message, the two schemas and the list \<^verbatim>\<open>tools\<close> are all true).
\<close>

datatype binding =
    Fn_get_external_llm_key
  | Fn_push
  | Fn_record_user_details
  | Fn_record_unknown_question
  | Foreign string
  | NotCallable bool

definition module_globals :: "'w system \<Rightarrow> string \<Rightarrow> binding option" where
  "module_globals sys name =
     (if name \<in> set [''load_dotenv'', ''OpenAI'', ''PdfReader'', ''Me''] then Some (Foreign name)
      else if name \<in> set [''json'', ''os'', ''requests'', ''gr''] then Some (NotCallable True)
      else if name = ''OUT_OF_TOKENS_MESSAGE'' then Some (NotCallable True)
      else if name = ''get_external_llm_key'' then Some Fn_get_external_llm_key
      else if name = ''push'' then Some Fn_push
      else if name = ''record_user_details'' then Some Fn_record_user_details
      else if name = ''record_unknown_question'' then Some Fn_record_unknown_question
      else if name \<in> set [''record_user_details_json'', ''record_unknown_question_json'', ''tools'']
        then Some (NotCallable True)
      else map_option NotCallable (ambient sys name))"

fun truthy :: "binding \<Rightarrow> bool" where
  "truthy (NotCallable b) = b"
| "truthy f = True"

fun call_binding ::
  "'w system \<Rightarrow> binding \<Rightarrow> (string \<times> string) list \<Rightarrow> 'w state \<Rightarrow> (exn + pyvalue) \<times> 'w state" where
  "call_binding sys Fn_get_external_llm_key kwargs s = get_external_llm_key_kw sys kwargs s"
| "call_binding sys Fn_push kwargs s = push_kw sys kwargs s"
| "call_binding sys Fn_record_user_details kwargs s = record_user_details_kw sys kwargs s"
| "call_binding sys Fn_record_unknown_question kwargs s = record_unknown_question_kw sys kwargs s"
| "call_binding sys (Foreign name) kwargs s =
     (let (returned, w) = foreign_call sys name kwargs (world s) in (returned, s\<lparr>world := w\<rparr>))"
| "call_binding sys (NotCallable b) kwargs s = (Inl TypeError, s)"

text \<open>
  \<^verbatim>\<open>json.dumps\<close> with its defaults: \<^verbatim>\<open>ensure_ascii\<close>, separators \<^verbatim>\<open>", "\<close> and
  \<^verbatim>\<open>": "\<close>, a tuple written as an array, \<^verbatim>\<open>TypeError\<close> for an object it cannot
  serialise.
\<close>

definition hex_digit :: "nat \<Rightarrow> char" where
  "hex_digit n = ''0123456789abcdef'' ! (n mod 16)"

definition escape_char :: "char \<Rightarrow> string" where
  "escape_char c =
     (if c = CHR 0x22 then [CHR 0x5C, CHR 0x22]
      else if c = CHR 0x5C then [CHR 0x5C, CHR 0x5C]
      else if c = CHR 0x0A then [CHR 0x5C, CHR ''n'']
      else if c = CHR 0x0D then [CHR 0x5C, CHR ''r'']
      else if c = CHR 0x09 then [CHR 0x5C, CHR ''t'']
      else if c = CHR 0x0C then [CHR 0x5C, CHR ''f'']
      else if c = CHR 0x08 then [CHR 0x5C, CHR ''b'']
      else if (0x20 :: nat) \<le> of_char c \<and> of_char c \<le> (0x7E :: nat) then [c]
      else [CHR 0x5C, CHR ''u'', CHR ''0'', CHR ''0'',
            hex_digit (of_char c div 16), hex_digit (of_char c)])"

definition json_string :: "string \<Rightarrow> string" where
  "json_string str = [CHR 0x22] @ concat (map escape_char str) @ [CHR 0x22]"

fun join :: "string \<Rightarrow> string list \<Rightarrow> string" where
  "join sep [] = []"
| "join sep [x] = x"
| "join sep (x # y # ys) = x @ sep @ join sep (y # ys)"

fun json_dumps :: "pyvalue \<Rightarrow> exn + string" where
  "json_dumps PyNone = Inr ''null''"
| "json_dumps (PyBool b) = Inr (if b then ''true'' else ''false'')"
| "json_dumps (PyDict items) =
     Inr (''{'' @ join '', '' (map (\<lambda>(k, v). json_string k @ '': '' @ json_string v) items) @ ''}'')"
| "json_dumps (PyTuple elems) = Inr (''['' @ join '', '' (map json_string elems) @ '']'')"
| "json_dumps PyObject = Inl TypeError"

subsection \<open>\<^verbatim>\<open>Me.handle_tool_call\<close> (lines 130-139)\<close>

text \<open>
  \<^verbatim>\<open>result = tool(**arguments) if tool else {}\<close>: nothing is called when the name has no
  binding or a false one; \<^verbatim>\<open>**\<close> of a value that is not a dict raises \<^verbatim>\<open>TypeError\<close>.
\<close>

definition call_or_empty ::
  "'w system \<Rightarrow> binding option \<Rightarrow> arguments \<Rightarrow> 'w state \<Rightarrow> (exn + pyvalue) \<times> 'w state" where
  "call_or_empty sys tool arguments s =
     (case tool of
        None \<Rightarrow> (Inr (PyDict []), s)
      | Some f \<Rightarrow>
          if \<not> truthy f then (Inr (PyDict []), s)
          else (case arguments of
                  Object kwargs \<Rightarrow> call_binding sys f kwargs s
                | other \<Rightarrow> (Inl TypeError, s)))"

text \<open>
  The loop over \<^verbatim>\<open>tool_calls\<close>, with the list \<^verbatim>\<open>results\<close> built so far. An exception
  leaves the loop, and the method, at once.
\<close>

fun handle_tool_call_from ::
  "'w system \<Rightarrow> tool_call list \<Rightarrow> message list \<Rightarrow> 'w state \<Rightarrow> (exn + message list) \<times> 'w state" where
  "handle_tool_call_from sys [] results s = (Inr results, s)"
| "handle_tool_call_from sys (tool_call # rest) results s =
     (let tool_name = tc_name tool_call in
      case tc_arguments tool_call of
        Invalid \<Rightarrow> (Inl JSONDecodeError, s)
      | arguments \<Rightarrow>
         (let s1 = s\<lparr>trace := trace s @ [Print (''Tool called: '' @ tool_name)]\<rparr> in
          case call_or_empty sys (module_globals sys tool_name) arguments s1 of
            (Inl e, s2) \<Rightarrow> (Inl e, s2)
          | (Inr result, s2) \<Rightarrow>
              (case json_dumps result of
                 Inl e \<Rightarrow> (Inl e, s2)
               | Inr dumped \<Rightarrow>
                   handle_tool_call_from sys rest
                     (results @ [ToolDict dumped (tc_id tool_call)]) s2)))"

definition handle_tool_call ::
  "'w system \<Rightarrow> tool_call list \<Rightarrow> 'w state \<Rightarrow> (exn + message list) \<times> 'w state" where
  "handle_tool_call sys tool_calls s = handle_tool_call_from sys tool_calls [] s"

subsection \<open>\<^verbatim>\<open>Me.system_prompt\<close> (lines 141-152)\<close>

datatype Me = Me (self_name: string) (self_linkedin: string) (self_summary: string)

definition system_prompt :: "Me \<Rightarrow> string" where
  "system_prompt self =
     ''You are acting as '' @ self_name self @ ''. You are answering questions on '' @ self_name self @
     [CHR 0x27] @ ''s website, particularly questions related to '' @ self_name self @
     [CHR 0x27] @ ''s career, background, skills and experience. '' @
     ''Your responsibility is to represent '' @ self_name self @
     '' for interactions on the website as faithfully as possible. '' @
     ''You are given a summary of '' @ self_name self @
     [CHR 0x27] @ ''s background and LinkedIn profile which you can use to answer questions. '' @
     ''Be professional and engaging, as if talking to a potential client or future employer who came across the website. '' @
     ''If you don'' @ [CHR 0x27] @ ''t know the answer to any question, use your record_unknown_question tool to record the question that you couldn'' @ [CHR 0x27] @ ''t answer, even if it'' @ [CHR 0x27] @ ''s about something trivial or unrelated to career. '' @
     ''If the user is engaging in discussion, try to steer them towards getting in touch via email; ask for their email and record it using your record_user_details tool. '' @
     [CHR 0x0A, CHR 0x0A] @ ''## Summary:'' @ [CHR 0x0A] @ self_summary self @
     [CHR 0x0A, CHR 0x0A] @ ''## LinkedIn Profile:'' @ [CHR 0x0A] @ self_linkedin self @
     [CHR 0x0A, CHR 0x0A] @
     ''With this context, please chat with the user, always staying in character as '' @
     self_name self @ ''.''"

subsection \<open>\<^verbatim>\<open>Me.chat\<close> (lines 154-202)\<close>

definition providers :: "(string \<times> string \<times> string option \<times> string) list" where
  "providers =
     [(''openai'', ''OPENAI_API_KEY'', None, ''gpt-4o-mini''),
      (''groq'', ''GROQ_API_KEY'', Some ''https://api.groq.com/openai/v1'', ''llama-3.1-8b-instant''),
      (''gemini'', ''GEMINI_API_KEY'',
         Some ''https://generativelanguage.googleapis.com/v1beta/openai/'', ''gemini-1.5-flash''),
      (''deepseek'', ''DEEPSEEK_API_KEY'', Some ''https://api.deepseek.com/v1'', ''deepseek-chat'')]"

text \<open>
  The \<^verbatim>\<open>for\<close> loop of lines 162-187 over the providers still to try. The client is
  built on line 176, before the \<^verbatim>\<open>try\<close>: an exception of the constructor leaves the
  loop and the method (\<open>Inl\<close>). Otherwise the loop gives \<^verbatim>\<open>response\<close>, which is
  \<^verbatim>\<open>None\<close> when it ends without a \<^verbatim>\<open>break\<close>. With the result comes the log of the
  pass; \<^verbatim>\<open>last_error\<close>, which the method never reads, is the last exception of a
  \<open>Raised\<close> entry of that log.
\<close>

fun try_providers ::
  "'w system \<Rightarrow> message list \<Rightarrow> (string \<times> string \<times> string option \<times> string) list \<Rightarrow> 'w
     \<Rightarrow> ((exn + response option) \<times> (string \<times> attempt) list) \<times> 'w" where
  "try_providers sys messages [] w = ((Inr None, []), w)"
| "try_providers sys messages ((provider, env_var, base_url, model) # rest) w =
     (case os_getenv sys w env_var of
        None \<Rightarrow> try_providers sys messages rest w
      | Some api_key \<Rightarrow>
          if api_key = [] then try_providers sys messages rest w
          else (case new_client sys w (ClientKwargs api_key base_url) of
                  Some e \<Rightarrow> ((Inl e, [(provider, NoClient e)]), w)
                | None \<Rightarrow>
                    (case completions_create sys (ClientKwargs api_key base_url) model messages w of
                       (Inr response, w') \<Rightarrow> ((Inr response, [(provider, Returned)]), w')
                     | (Inl e, w') \<Rightarrow>
                         (case try_providers sys messages rest w' of
                            ((response, tried), w'') \<Rightarrow>
                              ((response, (provider, Raised e) # tried), w'')))))"

text \<open>
  One pass through the body of \<^verbatim>\<open>while not done\<close>, on the list object at address
  \<open>messages\<close>. The result is \<open>None\<close> when the loop goes on, \<open>Some (Inr v)\<close> when the
  method returns \<open>v\<close> (a string, or \<^verbatim>\<open>None\<close> when the content of the answer is
  \<^verbatim>\<open>None\<close>) and \<open>Some (Inl e)\<close> when it raises \<open>e\<close>: the exception of the
  constructor of a client; on line 194 \<^verbatim>\<open>TypeError\<close> for \<^verbatim>\<open>choices\<close> that is
  \<^verbatim>\<open>None\<close> and \<^verbatim>\<open>IndexError\<close> for an empty list; \<^verbatim>\<open>AttributeError\<close> for a
  message that is \<^verbatim>\<open>None\<close> (line 196 or 202); \<^verbatim>\<open>TypeError\<close> for iterating over
  \<^verbatim>\<open>tool_calls\<close> that is \<^verbatim>\<open>None\<close>; or an exception of \<^verbatim>\<open>handle_tool_call\<close>,
  which is called outside the \<^verbatim>\<open>try\<close>.
\<close>

definition chat_step ::
  "'w system \<Rightarrow> nat \<Rightarrow> 'w state \<Rightarrow> (exn + string option) option \<times> 'w state" where
  "chat_step sys messages s =
     (case try_providers sys (heap s messages) providers (world s) of
        ((scanned, tried), w) \<Rightarrow>
          (let s1 = s\<lparr>world := w, trace := trace s @ [Scan tried]\<rparr> in
           case scanned of
             Inl e \<Rightarrow> (Some (Inl e), s1)
           | Inr None \<Rightarrow> (Some (Inr (Some OUT_OF_TOKENS_MESSAGE)), s1)
           | Inr (Some r) \<Rightarrow>
               (case choices r of
                  None \<Rightarrow> (Some (Inl TypeError), s1)
                | Some [] \<Rightarrow> (Some (Inl IndexError), s1)
                | Some (first # others) \<Rightarrow>
                    if finish_reason first = ''tool_calls''
                    then (case choice_message first of
                            None \<Rightarrow> (Some (Inl AttributeError), s1)
                          | Some msg \<Rightarrow>
                              (case msg_tool_calls msg of
                                 None \<Rightarrow> (Some (Inl TypeError), s1)
                               | Some tool_calls \<Rightarrow>
                                   (case handle_tool_call sys tool_calls s1 of
                                      (Inl e, s2) \<Rightarrow> (Some (Inl e), s2)
                                    | (Inr results, s2) \<Rightarrow>
                                        (None,
                                         s2\<lparr>heap := (heap s2)
                                           (messages := heap s2 messages @ [Obj msg] @ results)\<rparr>))))
                    else (case choice_message first of
                            None \<Rightarrow> (Some (Inl AttributeError), s1)
                          | Some msg \<Rightarrow> (Some (Inr (msg_content msg)), s1)))))"

text \<open>
  The \<^verbatim>\<open>while\<close> loop has no bound in the source. Here it runs for at most \<open>fuel\<close>
  passes; the result \<open>None\<close> says that the loop has not ended within them.
\<close>

fun chat_loop ::
  "'w system \<Rightarrow> nat \<Rightarrow> nat \<Rightarrow> 'w state \<Rightarrow> (exn + string option) option \<times> 'w state" where
  "chat_loop sys 0 messages s = (None, s)"
| "chat_loop sys (Suc fuel) messages s =
     (case chat_step sys messages s of
        (None, s') \<Rightarrow> chat_loop sys fuel messages s'
      | (Some ended, s') \<Rightarrow> (Some ended, s'))"

text \<open>
  \<^verbatim>\<open>chat\<close>: \<open>history\<close> is the address of the caller's list; the concatenation of
  line 155 makes a new list object, at the next unused address.
\<close>

definition chat ::
  "'w system \<Rightarrow> Me \<Rightarrow> nat \<Rightarrow> string \<Rightarrow> nat \<Rightarrow> 'w state \<Rightarrow> (exn + string option) option \<times> 'w state" where
  "chat sys self fuel message history s =
     (let messages = fresh s;
          s0 = s\<lparr>heap := (heap s)
                  (messages := [Dict ''system'' (system_prompt self)] @ heap s history
                                 @ [Dict ''user'' message]),
                fresh := Suc (fresh s)\<rparr>
      in chat_loop sys fuel messages s0)"

section \<open>What the theorems speak about\<close>

text \<open>The passes over the providers and the posts that a log records, in order.\<close>

fun scans_of :: "event list \<Rightarrow> (string \<times> attempt) list list" where
  "scans_of [] = []"
| "scans_of (Scan tried # es) = tried # scans_of es"
| "scans_of (e # es) = scans_of es"

fun posts_of :: "event list \<Rightarrow> (string \<times> string option) list list" where
  "posts_of [] = []"
| "posts_of (Post url data # es) = data # posts_of es"
| "posts_of (e # es) = posts_of es"

text \<open>
  What handling tool calls may do to the state: it changes the world and adds posts and
  prints to the log, but no list object changes and no pass over the providers is made.
\<close>

definition tool_effect :: "'w state \<Rightarrow> 'w state \<Rightarrow> bool" where
  "tool_effect s s' \<longleftrightarrow>
     heap s' = heap s \<and> fresh s' = fresh s \<and> scans_of (trace s') = scans_of (trace s)"

text \<open>
  A system in which no call outside the module changes the environment: the credentials
  stay as they are during a turn.
\<close>

definition env_stable :: "'w system \<Rightarrow> bool" where
  "env_stable sys \<longleftrightarrow>
     (\<forall>kw model messages w. os_getenv sys (snd (completions_create sys kw model messages w)) = os_getenv sys w) \<and>
     (\<forall>url data w. os_getenv sys (snd (requests_post sys url data w)) = os_getenv sys w) \<and>
     (\<forall>name kwargs w. os_getenv sys (snd (foreign_call sys name kwargs w)) = os_getenv sys w)"

text \<open>The providers whose credential is present, in priority order.\<close>

definition credentialed :: "(string \<Rightarrow> string option) \<Rightarrow> string list" where
  "credentialed getenv =
     (if present getenv ''OPENAI_API_KEY'' then [''openai''] else []) @
     (if present getenv ''GROQ_API_KEY'' then [''groq''] else []) @
     (if present getenv ''GEMINI_API_KEY'' then [''gemini''] else []) @
     (if present getenv ''DEEPSEEK_API_KEY'' then [''deepseek''] else [])"

text \<open>An attempt in which \<^verbatim>\<open>create\<close> was called and raised: the pass goes on after it.\<close>

fun raised :: "attempt \<Rightarrow> bool" where
  "raised (Raised e) = True"
| "raised a = False"


text \<open>
  A tool message answers a request when it carries the call id of the request; for a
  request whose tool name has no module-level binding its content is the empty JSON
  object.
\<close>

definition answers :: "'w system \<Rightarrow> tool_call \<Rightarrow> message \<Rightarrow> bool" where
  "answers sys tool_call m \<longleftrightarrow>
     (\<exists>dumped. m = ToolDict dumped (tc_id tool_call) \<and>
        (module_globals sys (tc_name tool_call) = None \<longrightarrow> dumped = ''{}''))"

text \<open>The form that \<^verbatim>\<open>push\<close> posts for a text, and the state after the post.\<close>

definition push_data :: "'w system \<Rightarrow> 'w state \<Rightarrow> string \<Rightarrow> (string \<times> string option) list" where
  "push_data sys s text =
     [(''token'', os_getenv sys (world s) ''PUSHOVER_TOKEN''),
      (''user'', os_getenv sys (world s) ''PUSHOVER_USER''),
      (''message'', Some text)]"

definition pushed :: "'w system \<Rightarrow> string \<Rightarrow> 'w state \<Rightarrow> 'w state" where
  "pushed sys text s =
     s\<lparr>world := snd (requests_post sys pushover_url (push_data sys s text) (world s)),
       trace := trace s @ [Post pushover_url (push_data sys s text)]\<rparr>"

definition printed :: "tool_call \<Rightarrow> 'w state \<Rightarrow> 'w state" where
  "printed tool_call s = s\<lparr>trace := trace s @ [Print (''Tool called: '' @ tc_name tool_call)]\<rparr>"

text \<open>
  A request for one of the two tools whose arguments are a JSON object that the
  signature of the tool rejects: a key that is no parameter, or no key for the required
  parameter.
\<close>

definition malformed :: "tool_call \<Rightarrow> bool" where
  "malformed tool_call =
     (case tc_arguments tool_call of
        Object kwargs \<Rightarrow>
          if tc_name tool_call = ''record_user_details''
          then unexpected_keyword kwargs [''email'', ''name'', ''notes''] \<or> map_of kwargs ''email'' = None
          else if tc_name tool_call = ''record_unknown_question''
          then unexpected_keyword kwargs [''question''] \<or> map_of kwargs ''question'' = None
          else False
      | other \<Rightarrow> False)"

text \<open>
  The answer that wins the pass from state \<open>s\<close>: the completion that the first
  successful call of the pass returned, with the state the pass is in when it has it.
\<close>

definition winning_answer :: "'w system \<Rightarrow> nat \<Rightarrow> 'w state \<Rightarrow> (response \<times> 'w state) option" where
  "winning_answer sys messages s =
     (case try_providers sys (heap s messages) providers (world s) of
        ((Inr (Some r), tried), w) \<Rightarrow> Some (r, s\<lparr>world := w, trace := trace s @ [Scan tried]\<rparr>)
      | ((other, tried), w) \<Rightarrow> None)"

text \<open>
  The tool calls that the pass from state \<open>s\<close> is asked to run: the message of the first
  choice of the answer that won the pass, when its finish reason is \<^verbatim>\<open>tool_calls\<close>, with
  its list of requests and the state in which handling them starts.
\<close>

definition tool_calls_requested ::
  "'w system \<Rightarrow> nat \<Rightarrow> 'w state \<Rightarrow> (completion_message \<times> tool_call list \<times> 'w state) option" where
  "tool_calls_requested sys messages s =
     (case winning_answer sys messages s of
        None \<Rightarrow> None
      | Some (r, s1) \<Rightarrow>
          (case choices r of
             Some (first # others) \<Rightarrow>
               if finish_reason first = ''tool_calls''
               then (case choice_message first of
                       None \<Rightarrow> None
                     | Some msg \<Rightarrow>
                         (case msg_tool_calls msg of
                            None \<Rightarrow> None
                          | Some tool_calls \<Rightarrow> Some (msg, tool_calls, s1)))
               else None
           | other \<Rightarrow> None))"

text \<open>An answer that some call of \<^verbatim>\<open>create\<close> returns.\<close>

definition returned :: "'w system \<Rightarrow> response \<Rightarrow> bool" where
  "returned sys r \<longleftrightarrow>
     (\<exists>kw model messages w. fst (completions_create sys kw model messages w) = Inr (Some r))"


section \<open>A concrete system\<close>

text \<open>
  A small system to run the model on. Its world counts the calls of \<^verbatim>\<open>create\<close> made so
  far; \<open>answer model n\<close> is what the provider with that model does at call number
  \<open>n\<close>, \<open>posted\<close> is what every \<^verbatim>\<open>requests.post\<close> does. The environment is fixed,
  every client is built, foreign callables return an object, and no ambient name is bound.
\<close>

definition example_system ::
  "(string \<Rightarrow> string option) \<Rightarrow> (string \<Rightarrow> nat \<Rightarrow> exn + response option) \<Rightarrow> (exn + nat)
     \<Rightarrow> nat system" where
  "example_system env answer posted =
     \<lparr>os_getenv = (\<lambda>w. env),
      new_client = (\<lambda>w kw. None),
      completions_create = (\<lambda>kw model messages w. (answer model w, Suc w)),
      requests_post = (\<lambda>url data w. (posted, w)),
      foreign_call = (\<lambda>name kwargs w. (Inr PyObject, w)),
      ambient = (\<lambda>name. None)\<rparr>"

text \<open>The variable of OpenAI is set but empty, those of Groq and Gemini hold keys.\<close>

definition example_env :: "string \<Rightarrow> string option" where
  "example_env =
     [''OPENAI_API_KEY'' \<mapsto> '''', ''GROQ_API_KEY'' \<mapsto> ''gsk'', ''GEMINI_API_KEY'' \<mapsto> ''gem'']"

definition no_env :: "string \<Rightarrow> string option" where
  "no_env = (\<lambda>var. None)"

definition text_response :: "string \<Rightarrow> response" where
  "text_response content =
     Response (Some [Choice ''stop'' (Some (CompletionMessage (Some content) None))])"

definition tool_response :: "tool_call list \<Rightarrow> response" where
  "tool_response tool_calls =
     Response (Some [Choice ''tool_calls'' (Some (CompletionMessage None (Some tool_calls)))])"

text \<open>
  Groq raises at every call; Gemini first asks for the tool calls given, then answers.
\<close>

definition example_answer :: "tool_call list \<Rightarrow> string \<Rightarrow> nat \<Rightarrow> exn + response option" where
  "example_answer tool_calls model n =
     (if model = ''gemini-1.5-flash''
      then (if n < 2 then Inr (Some (tool_response tool_calls))
            else Inr (Some (text_response ''Thanks, I will be in touch!'')))
      else Inl (Failure ''rate limit''))"

definition example_state :: "nat state" where
  "example_state = \<lparr>world = 0, heap = (\<lambda>a. []), fresh = 1, trace = []\<rparr>"

definition example_me :: Me where
  "example_me = Me ''Almog Ben Simon'' ''profile'' ''summary''"

definition email_call :: tool_call where
  "email_call = ToolCall ''call_1'' ''record_user_details'' (Object [(''email'', ''a@b.com'')])"

text \<open>Gemini asks for the tool calls once and raises from then on; Groq always raises.\<close>

definition example_outage :: "tool_call list \<Rightarrow> string \<Rightarrow> nat \<Rightarrow> exn + response option" where
  "example_outage tool_calls model n =
     (if model = ''gemini-1.5-flash'' \<and> n < 2 then Inr (Some (tool_response tool_calls))
      else Inl (Failure ''rate limit''))"

definition always_raises :: "string \<Rightarrow> nat \<Rightarrow> exn + response option" where
  "always_raises model n = Inl (Failure ''rate limit'')"

text \<open>A request to record a user that gives a name but no email.\<close>

definition bob_call :: tool_call where
  "bob_call = ToolCall ''call_1'' ''record_user_details'' (Object [(''name'', ''Bob'')])"


text \<open>A request to record a question that gives no question.\<close>

definition no_question_call :: tool_call where
  "no_question_call = ToolCall ''call_2'' ''record_unknown_question'' (Object [])"

text \<open>A request for a tool that the module does not have, with arguments that are not JSON.\<close>

definition weather_call :: tool_call where
  "weather_call = ToolCall ''call_1'' ''lookup_weather'' Invalid"

text \<open>A request for a tool that the module does not have, with arguments that are JSON.\<close>

definition unknown_call :: tool_call where
  "unknown_call = ToolCall ''call_7'' ''lookup_weather'' (Object [(''city'', ''Haifa'')])"

text \<open>A state in which the caller's history, of two messages, is the list at address 0.\<close>

definition example_history_state :: "nat state" where
  "example_history_state =
     \<lparr>world = 0,
      heap = (\<lambda>a. if a = 0 then [Dict ''user'' ''Hello'', Dict ''assistant'' ''Hi, how can I help?''] else []),
      fresh = 1, trace = []\<rparr>"

text \<open>
  The example system with a constructor of clients that raises \<open>e\<close> for every client,
  as \<^verbatim>\<open>OpenAI(...)\<close> does when the HTTP transport cannot be set up.
\<close>

definition example_system_no_client ::
  "(string \<Rightarrow> string option) \<Rightarrow> (string \<Rightarrow> nat \<Rightarrow> exn + response option) \<Rightarrow> (exn + nat) \<Rightarrow> exn
     \<Rightarrow> nat system" where
  "example_system_no_client env answer posted e =
     (example_system env answer posted)\<lparr>new_client := (\<lambda>w kw. Some e)\<rparr>"

text \<open>
  Answers of Gemini that \<^verbatim>\<open>chat\<close> cannot read, or that carry tool calls under another
  finish reason; Groq raises as before.
\<close>

definition gemini_answers :: "response \<Rightarrow> string \<Rightarrow> nat \<Rightarrow> exn + response option" where
  "gemini_answers r model n =
     (if model = ''gemini-1.5-flash'' then Inr (Some r) else Inl (Failure ''rate limit''))"

definition stop_with_calls :: "tool_call list \<Rightarrow> response" where
  "stop_with_calls tool_calls =
     Response (Some [Choice ''stop'' (Some (CompletionMessage (Some ''Noted.'') (Some tool_calls)))])"

section \<open>Lemmas\<close>

subsection \<open>The effect of tool handling on the state\<close>

lemma scans_of_append [simp]: "scans_of (xs @ ys) = scans_of xs @ scans_of ys"
  by (induction xs rule: scans_of.induct) simp_all

lemma posts_of_append [simp]: "posts_of (xs @ ys) = posts_of xs @ posts_of ys"
  by (induction xs rule: posts_of.induct) simp_all

lemma tool_effect_refl [simp]: "tool_effect s s"
  by (simp add: tool_effect_def)

lemma tool_effect_trans: "tool_effect s s1 \<Longrightarrow> tool_effect s1 s2 \<Longrightarrow> tool_effect s s2"
  by (simp add: tool_effect_def)

lemma push_effect: "push sys text s = (r, s') \<Longrightarrow> tool_effect s s'"
  by (auto simp: push_def tool_effect_def Let_def split: prod.splits sum.splits)

lemma record_user_details_effect:
  "record_user_details sys email name notes s = (r, s') \<Longrightarrow> tool_effect s s'"
  by (auto simp: record_user_details_def split: prod.splits sum.splits dest: push_effect)

lemma record_unknown_question_effect:
  "record_unknown_question sys question s = (r, s') \<Longrightarrow> tool_effect s s'"
  by (auto simp: record_unknown_question_def split: prod.splits sum.splits dest: push_effect)

lemma call_binding_effect: "call_binding sys f kwargs s = (r, s') \<Longrightarrow> tool_effect s s'"
proof (cases f)
  case Fn_get_external_llm_key
  assume "call_binding sys f kwargs s = (r, s')"
  with Fn_get_external_llm_key show ?thesis
    by (auto simp: get_external_llm_key_kw_def split: if_splits sum.splits)
next
  case Fn_push
  assume "call_binding sys f kwargs s = (r, s')"
  with Fn_push show ?thesis
    by (auto simp: push_kw_def split: if_splits option.splits dest: push_effect)
next
  case Fn_record_user_details
  assume "call_binding sys f kwargs s = (r, s')"
  with Fn_record_user_details show ?thesis
    by (auto simp: record_user_details_kw_def split: if_splits option.splits
        dest: record_user_details_effect)
next
  case Fn_record_unknown_question
  assume "call_binding sys f kwargs s = (r, s')"
  with Fn_record_unknown_question show ?thesis
    by (auto simp: record_unknown_question_kw_def split: if_splits option.splits
        dest: record_unknown_question_effect)
next
  case (Foreign name)
  assume "call_binding sys f kwargs s = (r, s')"
  with Foreign show ?thesis
    by (auto simp: tool_effect_def split: prod.splits)
next
  case (NotCallable b)
  assume "call_binding sys f kwargs s = (r, s')"
  with NotCallable show ?thesis by auto
qed

lemma call_or_empty_effect: "call_or_empty sys tool arguments s = (r, s') \<Longrightarrow> tool_effect s s'"
  by (auto simp: call_or_empty_def split: option.splits if_splits arguments.splits
      dest: call_binding_effect)

lemma handle_tool_call_from_effect:
  "handle_tool_call_from sys tool_calls results s = (r, s') \<Longrightarrow> tool_effect s s'"
proof (induction tool_calls arbitrary: results s)
  case Nil
  then show ?case by simp
next
  case (Cons tool_call rest)
  show ?case
  proof (cases "tc_arguments tool_call = Invalid")
    case True
    with Cons.prems show ?thesis by simp
  next
    case False
    define s1 where "s1 = s\<lparr>trace := trace s @ [Print (''Tool called: '' @ tc_name tool_call)]\<rparr>"
    have e1: "tool_effect s s1" by (simp add: s1_def tool_effect_def)
    obtain res s2 where call:
      "call_or_empty sys (module_globals sys (tc_name tool_call)) (tc_arguments tool_call) s1 = (res, s2)"
      by (cases "call_or_empty sys (module_globals sys (tc_name tool_call)) (tc_arguments tool_call) s1")
    have e2: "tool_effect s s2"
      using e1 call_or_empty_effect [OF call] by (rule tool_effect_trans)
    from False Cons.prems call have
      "(case res of Inl e \<Rightarrow> (Inl e, s2)
        | Inr result \<Rightarrow> (case json_dumps result of Inl e \<Rightarrow> (Inl e, s2)
            | Inr dumped \<Rightarrow> handle_tool_call_from sys rest
                (results @ [ToolDict dumped (tc_id tool_call)]) s2)) = (r, s')"
      by (simp add: s1_def Let_def split: arguments.splits)
    then show ?thesis
      using e2 Cons.IH by (auto split: sum.splits intro: tool_effect_trans)
  qed
qed

lemma handle_tool_call_effect: "handle_tool_call sys tool_calls s = (r, s') \<Longrightarrow> tool_effect s s'"
  unfolding handle_tool_call_def by (rule handle_tool_call_from_effect)

subsection \<open>One pass over the providers\<close>


lemma try_providers_stable:
  assumes stable: "\<forall>kw model messages w.
      os_getenv sys (snd (completions_create sys kw model messages w)) = os_getenv sys w"
  shows "try_providers sys messages ps w = ((r, tried), w') \<Longrightarrow>
     os_getenv sys w' = os_getenv sys w \<and>
     prefix (map fst tried) (map fst (filter (\<lambda>p. present (os_getenv sys w) (fst (snd p))) ps)) \<and>
     ((\<forall>a\<in>set tried. raised (snd a)) \<longrightarrow>
        map fst tried = map fst (filter (\<lambda>p. present (os_getenv sys w) (fst (snd p))) ps))"
proof (induction ps arbitrary: w r tried w')
  case Nil
  then show ?case by simp
next
  case (Cons p ps)
  obtain provider env_var base_url model where p: "p = (provider, env_var, base_url, model)"
    by (cases p)
  show ?case
  proof (cases "present (os_getenv sys w) env_var")
    case False
    with Cons.prems p have "try_providers sys messages ps w = ((r, tried), w')"
      by (simp add: present_def credential_def split: option.splits if_splits)
    from Cons.IH [OF this] False show ?thesis
      by (simp add: p)
  next
    case True
    then obtain api_key where key: "os_getenv sys w env_var = Some api_key" "api_key \<noteq> []"
      by (auto simp: present_def credential_def split: option.splits if_splits)
    show ?thesis
    proof (cases "new_client sys w (ClientKwargs api_key base_url)")
      case (Some e)
      with Cons.prems p key True show ?thesis by auto
    next
      case None
      obtain res w1 where call:
        "completions_create sys (ClientKwargs api_key base_url) model messages w = (res, w1)"
        by (cases "completions_create sys (ClientKwargs api_key base_url) model messages w")
      have env1: "os_getenv sys w1 = os_getenv sys w"
        using stable [rule_format, of "ClientKwargs api_key base_url" model messages w] call by simp
      show ?thesis
      proof (cases res)
        case (Inr response)
        with Cons.prems p key None call env1 True show ?thesis by auto
      next
        case (Inl e)
        obtain r2 tried2 w2 where rest: "try_providers sys messages ps w1 = ((r2, tried2), w2)"
          by (cases "try_providers sys messages ps w1") auto
        from Cons.prems p key None call Inl rest
        have eq: "r = r2" "tried = (provider, Raised e) # tried2" "w' = w2" by auto
        from Cons.IH [OF rest] True show ?thesis
          by (simp add: eq p env1)
      qed
    qed
  qed
qed





subsection \<open>One pass of the loop\<close>

lemma chat_step_won:
  assumes "winning_answer sys messages s = Some (r, s1)"
  shows "chat_step sys messages s =
     (case choices r of
        None \<Rightarrow> (Some (Inl TypeError), s1)
      | Some [] \<Rightarrow> (Some (Inl IndexError), s1)
      | Some (first # others) \<Rightarrow>
          if finish_reason first = ''tool_calls''
          then (case choice_message first of
                  None \<Rightarrow> (Some (Inl AttributeError), s1)
                | Some msg \<Rightarrow>
                    (case msg_tool_calls msg of
                       None \<Rightarrow> (Some (Inl TypeError), s1)
                     | Some tool_calls \<Rightarrow>
                         (case handle_tool_call sys tool_calls s1 of
                            (Inl e, s2) \<Rightarrow> (Some (Inl e), s2)
                          | (Inr results, s2) \<Rightarrow>
                              (None,
                               s2\<lparr>heap := (heap s2)
                                 (messages := heap s2 messages @ [Obj msg] @ results)\<rparr>))))
          else (case choice_message first of
                  None \<Rightarrow> (Some (Inl AttributeError), s1)
                | Some msg \<Rightarrow> (Some (Inr (msg_content msg)), s1)))"
proof -
  obtain scanned tried w where scan:
    "try_providers sys (heap s messages) providers (world s) = ((scanned, tried), w)"
    by (cases "try_providers sys (heap s messages) providers (world s)") auto
  with assms have sc: "scanned = Inr (Some r)"
    and s1: "s1 = s\<lparr>world := w, trace := trace s @ [Scan tried]\<rparr>"
    by (auto simp: winning_answer_def split: sum.splits option.splits)
  show ?thesis
    unfolding s1 using scan sc by (simp add: chat_step_def Let_def)
qed

lemma won_state:
  "winning_answer sys messages s = Some (r, s1) \<Longrightarrow>
     heap s1 = heap s \<and> fresh s1 = fresh s \<and> posts_of (trace s1) = posts_of (trace s)"
  by (auto simp: winning_answer_def split: prod.splits sum.splits option.splits)

lemma chat_step_cases:
  assumes "chat_step sys messages s = (out, s')"
  obtains
    (ended) r tried w ended where
      "try_providers sys (heap s messages) providers (world s) = ((r, tried), w)"
      "out = Some ended"
      "r = Inr None \<longrightarrow> ended = Inr (Some OUT_OF_TOKENS_MESSAGE)"
      "s' = s\<lparr>world := w, trace := trace s @ [Scan tried]\<rparr>"
  | (tool_raised) resp tried w tool_calls e where
      "try_providers sys (heap s messages) providers (world s) = ((Inr (Some resp), tried), w)"
      "handle_tool_call sys tool_calls (s\<lparr>world := w, trace := trace s @ [Scan tried]\<rparr>) = (Inl e, s')"
      "out = Some (Inl e)"
  | (tools_done) resp tried w msg tool_calls results s2 where
      "try_providers sys (heap s messages) providers (world s) = ((Inr (Some resp), tried), w)"
      "handle_tool_call sys tool_calls (s\<lparr>world := w, trace := trace s @ [Scan tried]\<rparr>) = (Inr results, s2)"
      "out = None"
      "s' = s2\<lparr>heap := (heap s2)(messages := heap s2 messages @ [Obj msg] @ results)\<rparr>"
proof -
  obtain r tried w where scan:
    "try_providers sys (heap s messages) providers (world s) = ((r, tried), w)"
    by (cases "try_providers sys (heap s messages) providers (world s)") auto
  define s1 where "s1 = s\<lparr>world := w, trace := trace s @ [Scan tried]\<rparr>"
  show thesis
  proof (cases r)
    case (Inl e)
    with assms scan show thesis
      by (intro ended [of r tried w "Inl e"]) (auto simp: chat_step_def)
  next
    case (Inr response)
    show thesis
    proof (cases response)
      case None
      with Inr assms scan show thesis
        by (intro ended [of r tried w "Inr (Some OUT_OF_TOKENS_MESSAGE)"]) (auto simp: chat_step_def)
    next
      case (Some resp)
      with Inr have r: "r = Inr (Some resp)" by simp
      with scan have won: "winning_answer sys messages s = Some (resp, s1)"
        by (simp add: winning_answer_def s1_def)
      note step = assms [unfolded chat_step_won [OF won]]
      then consider
        (a) ended where "out = Some ended" "s' = s1"
      | (b) tool_calls e where "handle_tool_call sys tool_calls s1 = (Inl e, s')" "out = Some (Inl e)"
      | (c) msg tool_calls results s2 where
          "handle_tool_call sys tool_calls s1 = (Inr results, s2)" "out = None"
          "s' = s2\<lparr>heap := (heap s2)(messages := heap s2 messages @ [Obj msg] @ results)\<rparr>"
        by (auto split: option.splits list.splits if_splits prod.splits sum.splits)
      then show thesis
      proof cases
        case a
        with scan r show thesis by (intro ended [of r tried w ended]) (simp_all add: s1_def)
      next
        case b
        with scan r show thesis
          by (intro tool_raised [of resp tried w tool_calls e]) (simp_all add: s1_def)
      next
        case c
        with scan r show thesis
          by (intro tools_done [of resp tried w tool_calls results s2 msg]) (simp_all add: s1_def)
      qed
    qed
  qed
qed

lemma push_env:
  "env_stable sys \<Longrightarrow> push sys text s = (r, s') \<Longrightarrow> os_getenv sys (world s') = os_getenv sys (world s)"
proof -
  assume stable: "env_stable sys" and run: "push sys text s = (r, s')"
  define data where "data = [(''token'', os_getenv sys (world s) ''PUSHOVER_TOKEN''),
                  (''user'', os_getenv sys (world s) ''PUSHOVER_USER''),
                  (''message'', Some text)]"
  from run have "world s' = snd (requests_post sys pushover_url data (world s))"
    by (auto simp: push_def data_def Let_def split: prod.splits sum.splits)
  with stable show ?thesis by (simp add: env_stable_def)
qed

lemma call_binding_env:
  assumes "env_stable sys" and "call_binding sys f kwargs s = (r, s')"
  shows "os_getenv sys (world s') = os_getenv sys (world s)"
proof (cases f)
  case Fn_get_external_llm_key
  with assms show ?thesis
    by (auto simp: get_external_llm_key_kw_def split: if_splits sum.splits)
next
  case Fn_push
  with assms show ?thesis
    by (auto simp: push_kw_def split: if_splits option.splits dest: push_env)
next
  case Fn_record_user_details
  with assms show ?thesis
    by (auto simp: record_user_details_kw_def record_user_details_def
        split: if_splits option.splits prod.splits sum.splits dest: push_env)
next
  case Fn_record_unknown_question
  with assms show ?thesis
    by (auto simp: record_unknown_question_kw_def record_unknown_question_def
        split: if_splits option.splits prod.splits sum.splits dest: push_env)
next
  case (Foreign name)
  from assms(2) have "world s' = snd (foreign_call sys name kwargs (world s))"
    by (auto simp: Foreign split: prod.splits)
  with assms(1) show ?thesis by (simp add: env_stable_def)
next
  case (NotCallable b)
  with assms show ?thesis by auto
qed

lemma call_or_empty_env:
  "env_stable sys \<Longrightarrow> call_or_empty sys tool arguments s = (r, s') \<Longrightarrow>
     os_getenv sys (world s') = os_getenv sys (world s)"
  by (auto simp: call_or_empty_def split: option.splits if_splits arguments.splits
      dest: call_binding_env)

lemma handle_tool_call_from_env:
  "env_stable sys \<Longrightarrow> handle_tool_call_from sys tool_calls results s = (r, s') \<Longrightarrow>
     os_getenv sys (world s') = os_getenv sys (world s)"
proof (induction tool_calls arbitrary: results s)
  case Nil
  then show ?case by simp
next
  case (Cons tool_call rest)
  show ?case
  proof (cases "tc_arguments tool_call = Invalid")
    case True
    with Cons.prems show ?thesis by simp
  next
    case False
    define s1 where "s1 = s\<lparr>trace := trace s @ [Print (''Tool called: '' @ tc_name tool_call)]\<rparr>"
    obtain res s2 where call:
      "call_or_empty sys (module_globals sys (tc_name tool_call)) (tc_arguments tool_call) s1 = (res, s2)"
      by (cases "call_or_empty sys (module_globals sys (tc_name tool_call)) (tc_arguments tool_call) s1")
    have e2: "os_getenv sys (world s2) = os_getenv sys (world s)"
      using call_or_empty_env [OF Cons.prems(1) call] by (simp add: s1_def)
    from False Cons.prems(2) call have
      "(case res of Inl e \<Rightarrow> (Inl e, s2)
        | Inr result \<Rightarrow> (case json_dumps result of Inl e \<Rightarrow> (Inl e, s2)
            | Inr dumped \<Rightarrow> handle_tool_call_from sys rest
                (results @ [ToolDict dumped (tc_id tool_call)]) s2)) = (r, s')"
      by (simp add: s1_def Let_def split: arguments.splits)
    then show ?thesis
      using e2 Cons.IH [OF Cons.prems(1)] by (auto split: sum.splits)
  qed
qed

lemma handle_tool_call_env:
  "env_stable sys \<Longrightarrow> handle_tool_call sys tool_calls s = (r, s') \<Longrightarrow>
     os_getenv sys (world s') = os_getenv sys (world s)"
  unfolding handle_tool_call_def by (rule handle_tool_call_from_env)

lemma try_providers_env:
  "env_stable sys \<Longrightarrow> try_providers sys messages ps w = ((r, tried), w') \<Longrightarrow>
     os_getenv sys w' = os_getenv sys w"
  using try_providers_stable [of sys messages ps w r tried w'] by (simp add: env_stable_def)

lemma chat_step_env:
  assumes "env_stable sys" and "chat_step sys messages s = (out, s')"
  shows "os_getenv sys (world s') = os_getenv sys (world s)"
  using assms(2)
proof (cases rule: chat_step_cases)
  case (ended r tried w ended)
  with try_providers_env [OF assms(1) ended(1)] show ?thesis by simp
next
  case (tool_raised resp tried w tool_calls e)
  from handle_tool_call_env [OF assms(1) tool_raised(2)] try_providers_env [OF assms(1) tool_raised(1)]
  show ?thesis by simp
next
  case (tools_done resp tried w msg tool_calls results s2)
  from handle_tool_call_env [OF assms(1) tools_done(2)] try_providers_env [OF assms(1) tools_done(1)]
  show ?thesis by (simp add: tools_done(4))
qed


lemma chat_step_frame:
  assumes "chat_step sys messages s = (out, s')"
  shows "fresh s' = fresh s \<and> (\<forall>a. a \<noteq> messages \<longrightarrow> heap s' a = heap s a) \<and>
         prefix (heap s messages) (heap s' messages)"
  using assms
proof (cases rule: chat_step_cases)
  case (ended r tried w ended)
  then show ?thesis by simp
next
  case (tool_raised resp tried w tool_calls e)
  from handle_tool_call_effect [OF tool_raised(2)] show ?thesis by (simp add: tool_effect_def)
next
  case (tools_done resp tried w msg tool_calls results s2)
  from handle_tool_call_effect [OF tools_done(2)] show ?thesis
    by (simp add: tool_effect_def tools_done(4))
qed

subsection \<open>The loop\<close>

lemma chat_loop_frame:
  "chat_loop sys fuel messages s = (out, s') \<Longrightarrow>
     fresh s' = fresh s \<and> (\<forall>a. a \<noteq> messages \<longrightarrow> heap s' a = heap s a) \<and>
     prefix (heap s messages) (heap s' messages)"
proof (induction fuel arbitrary: s)
  case 0
  then show ?case by simp
next
  case (Suc fuel)
  obtain o1 s1 where step: "chat_step sys messages s = (o1, s1)"
    by (cases "chat_step sys messages s")
  note f1 = chat_step_frame [OF step]
  show ?case
  proof (cases o1)
    case None
    with Suc.prems step have "chat_loop sys fuel messages s1 = (out, s')" by simp
    from Suc.IH [OF this] f1 show ?thesis
      by (auto intro: prefix_order.trans)
  next
    case (Some ended)
    with Suc.prems step f1 show ?thesis by auto
  qed
qed

lemma chat_loop_env:
  "env_stable sys \<Longrightarrow> chat_loop sys fuel messages s = (out, s') \<Longrightarrow>
     os_getenv sys (world s') = os_getenv sys (world s)"
proof (induction fuel arbitrary: s)
  case 0
  then show ?case by simp
next
  case (Suc fuel)
  obtain o1 s1 where step: "chat_step sys messages s = (o1, s1)"
    by (cases "chat_step sys messages s")
  note e1 = chat_step_env [OF Suc.prems(1) step]
  show ?case
  proof (cases o1)
    case None
    with Suc.prems step have "chat_loop sys fuel messages s1 = (out, s')" by simp
    from Suc.IH [OF Suc.prems(1) this] e1 show ?thesis by simp
  next
    case (Some ended)
    with Suc.prems step e1 show ?thesis by auto
  qed
qed



subsection \<open>Running the model\<close>

lemmas run_defs =
  chat_def chat_step_def handle_tool_call_def call_or_empty_def module_globals_def
  record_user_details_kw_def record_user_details_def record_unknown_question_kw_def
  record_unknown_question_def push_kw_def push_def pushover_url_def
  get_external_llm_key_kw_def get_external_llm_key_def provider_env_map_def
  unexpected_keyword_def keyword_or_def providers_def json_string_def escape_char_def
  example_system_def example_system_no_client_def example_env_def no_env_def
  text_response_def tool_response_def stop_with_calls_def gemini_answers_def
  example_answer_def example_state_def example_me_def email_call_def winning_answer_def


subsection \<open>When no provider answers\<close>

lemma try_providers_uncredentialed:
  "\<forall>p\<in>set ps. \<not> present (os_getenv sys w) (fst (snd p)) \<Longrightarrow>
     try_providers sys messages ps w = ((Inr None, []), w)"
proof (induction ps)
  case Nil
  then show ?case by simp
next
  case (Cons p ps)
  obtain provider env_var base_url model where p: "p = (provider, env_var, base_url, model)"
    by (cases p)
  from Cons show ?case
    by (auto simp: p present_def credential_def split: option.splits if_splits)
qed



lemma credentialed_empty:
  "credentialed getenv = [] \<longleftrightarrow> (\<forall>p\<in>set providers. \<not> present getenv (fst (snd p)))"
  by (simp add: credentialed_def providers_def)

subsection \<open>The tools\<close>

lemma push_eq:
  "push sys text s =
     (case fst (requests_post sys pushover_url (push_data sys s text) (world s)) of
        Inl e \<Rightarrow> Inl e
      | Inr status \<Rightarrow> Inr PyNone,
      pushed sys text s)"
  by (simp add: push_def push_data_def pushed_def Let_def split: prod.splits sum.splits)

lemma record_user_details_eq:
  "record_user_details sys email name notes s =
     (case fst (requests_post sys pushover_url
            (push_data sys s (''Recording '' @ name @ '' with email '' @ email @ '' and notes '' @ notes))
            (world s)) of
        Inl e \<Rightarrow> Inl e
      | Inr status \<Rightarrow> Inr (PyDict [(''recorded'', ''ok'')]),
      pushed sys (''Recording '' @ name @ '' with email '' @ email @ '' and notes '' @ notes) s)"
  by (simp add: record_user_details_def push_eq split: sum.splits)

lemma record_unknown_question_eq:
  "record_unknown_question sys question s =
     (case fst (requests_post sys pushover_url (push_data sys s (''Recording '' @ question)) (world s)) of
        Inl e \<Rightarrow> Inl e
      | Inr status \<Rightarrow> Inr (PyDict [(''recorded'', ''ok'')]),
      pushed sys (''Recording '' @ question) s)"
  by (simp add: record_unknown_question_def push_eq split: sum.splits)

lemma posts_of_pushed: "posts_of (trace (pushed sys text s)) = posts_of (trace s) @ [push_data sys s text]"
  by (simp add: pushed_def)

subsection \<open>The loop over the tool calls\<close>

lemma handle_tool_call_from_step:
  assumes "tc_arguments tool_call \<noteq> Invalid"
  shows "handle_tool_call_from sys (tool_call # rest) results s =
     (case call_or_empty sys (module_globals sys (tc_name tool_call)) (tc_arguments tool_call)
             (printed tool_call s) of
        (Inl e, s2) \<Rightarrow> (Inl e, s2)
      | (Inr result, s2) \<Rightarrow>
          (case json_dumps result of
             Inl e \<Rightarrow> (Inl e, s2)
           | Inr dumped \<Rightarrow>
               handle_tool_call_from sys rest (results @ [ToolDict dumped (tc_id tool_call)]) s2))"
  using assms by (cases "tc_arguments tool_call") (simp_all add: printed_def Let_def)

lemma handle_tool_call_from_invalid:
  "tc_arguments tool_call = Invalid \<Longrightarrow>
     handle_tool_call_from sys (tool_call # rest) results s = (Inl JSONDecodeError, s)"
  by simp

lemma handle_tool_call_from_unbound:
  assumes "module_globals sys (tc_name tool_call) = None" and "tc_arguments tool_call \<noteq> Invalid"
  shows "handle_tool_call_from sys (tool_call # rest) results s =
     handle_tool_call_from sys rest (results @ [ToolDict ''{}'' (tc_id tool_call)]) (printed tool_call s)"
  using assms by (simp add: handle_tool_call_from_step call_or_empty_def del: handle_tool_call_from.simps)

lemma handle_tool_call_from_answers:
  "handle_tool_call_from sys tool_calls results s = (Inr out, s') \<Longrightarrow>
     \<exists>new. out = results @ new \<and> list_all2 (answers sys) tool_calls new"
proof (induction tool_calls arbitrary: results s)
  case Nil
  then show ?case by simp
next
  case (Cons tool_call rest)
  from Cons.prems have valid: "tc_arguments tool_call \<noteq> Invalid"
    by (auto simp: handle_tool_call_from_invalid)
  obtain res s2 where call:
    "call_or_empty sys (module_globals sys (tc_name tool_call)) (tc_arguments tool_call)
       (printed tool_call s) = (res, s2)"
    by (cases "call_or_empty sys (module_globals sys (tc_name tool_call)) (tc_arguments tool_call)
       (printed tool_call s)")
  from Cons.prems call obtain result dumped where
    res: "res = Inr result" and dumped: "json_dumps result = Inr dumped" and
    rest: "handle_tool_call_from sys rest (results @ [ToolDict dumped (tc_id tool_call)]) s2 = (Inr out, s')"
    by (auto simp: handle_tool_call_from_step [OF valid] simp del: handle_tool_call_from.simps split: sum.splits)
  have "module_globals sys (tc_name tool_call) = None \<longrightarrow> dumped = ''{}''"
    using call res dumped by (auto simp: call_or_empty_def)
  then have first: "answers sys tool_call (ToolDict dumped (tc_id tool_call))"
    by (simp add: answers_def)
  from Cons.IH [OF rest] obtain new where
    "out = (results @ [ToolDict dumped (tc_id tool_call)]) @ new" "list_all2 (answers sys) rest new"
    by blast
  with first show ?case
    by (intro exI [of _ "ToolDict dumped (tc_id tool_call) # new"]) simp
qed

lemma handle_tool_call_answers:
  "handle_tool_call sys tool_calls s = (Inr results, s') \<Longrightarrow> list_all2 (answers sys) tool_calls results"
  using handle_tool_call_from_answers [of sys tool_calls "[]" s results s']
  by (simp add: handle_tool_call_def)

lemma malformed_raises:
  assumes "malformed tool_call"
  shows "handle_tool_call_from sys (tool_call # rest) results s = (Inl TypeError, printed tool_call s)"
proof -
  from assms obtain kwargs where args: "tc_arguments tool_call = Object kwargs"
    by (auto simp: malformed_def split: arguments.splits)
  then have valid: "tc_arguments tool_call \<noteq> Invalid" by simp
  from assms args have
    "call_or_empty sys (module_globals sys (tc_name tool_call)) (Object kwargs) (printed tool_call s)
       = (Inl TypeError, printed tool_call s)"
    by (auto simp: malformed_def call_or_empty_def module_globals_def record_user_details_kw_def
        record_unknown_question_kw_def split: if_splits)
  then show ?thesis
    by (simp add: handle_tool_call_from_step [OF valid] args del: handle_tool_call_from.simps)
qed

subsection \<open>A pass that has an answer\<close>

lemma requested_won:
  assumes "tool_calls_requested sys messages s = Some (msg, tool_calls, s1)"
  shows "\<exists>r first others. winning_answer sys messages s = Some (r, s1) \<and>
     choices r = Some (first # others) \<and> finish_reason first = ''tool_calls'' \<and>
     choice_message first = Some msg \<and> msg_tool_calls msg = Some tool_calls"
  using assms
  by (auto simp: tool_calls_requested_def split: option.splits list.splits if_splits)

lemma chat_step_requested:
  assumes "tool_calls_requested sys messages s = Some (msg, tool_calls, s1)"
  shows "chat_step sys messages s =
     (case handle_tool_call sys tool_calls s1 of
        (Inl e, s2) \<Rightarrow> (Some (Inl e), s2)
      | (Inr results, s2) \<Rightarrow>
          (None, s2\<lparr>heap := (heap s2)(messages := heap s2 messages @ [Obj msg] @ results)\<rparr>))"
proof -
  from requested_won [OF assms] obtain r first others where
    "winning_answer sys messages s = Some (r, s1)" "choices r = Some (first # others)"
    "finish_reason first = ''tool_calls''" "choice_message first = Some msg"
    "msg_tool_calls msg = Some tool_calls"
    by blast
  then show ?thesis by (simp add: chat_step_won)
qed

lemma requested_heap:
  "tool_calls_requested sys messages s = Some (msg, tool_calls, s1) \<Longrightarrow> heap s1 = heap s"
  using requested_won [of sys messages s msg tool_calls s1] won_state [of sys messages s _ s1]
  by blast





subsection \<open>A well-formed call of a tool\<close>

lemma tool_call_notifies:
  assumes "tc_name tool_call = ''record_user_details'' \<or> tc_name tool_call = ''record_unknown_question''"
    and "tc_arguments tool_call = Object kwargs" and "\<not> malformed tool_call"
  shows "\<exists>text. call_or_empty sys (module_globals sys (tc_name tool_call)) (tc_arguments tool_call) s =
     (case fst (requests_post sys pushover_url (push_data sys s text) (world s)) of
        Inl e \<Rightarrow> Inl e
      | Inr status \<Rightarrow> Inr (PyDict [(''recorded'', ''ok'')]),
      pushed sys text s)"
  using assms(1)
proof
  assume name: "tc_name tool_call = ''record_user_details''"
  with assms(2,3) obtain email where "map_of kwargs ''email'' = Some email"
    "\<not> unexpected_keyword kwargs [''email'', ''name'', ''notes'']"
    by (auto simp: malformed_def)
  with name assms(2) show ?thesis
    by (auto simp: call_or_empty_def module_globals_def record_user_details_kw_def
        record_user_details_eq)
next
  assume name: "tc_name tool_call = ''record_unknown_question''"
  with assms(2,3) obtain question where "map_of kwargs ''question'' = Some question"
    "\<not> unexpected_keyword kwargs [''question'']"
    by (auto simp: malformed_def)
  with name assms(2) show ?thesis
    by (auto simp: call_or_empty_def module_globals_def record_unknown_question_kw_def
        record_unknown_question_eq)
qed

subsection \<open>Answers by position\<close>

lemma list_all2_answers_nth:
  assumes "list_all2 (answers sys) tool_calls results"
  shows "length results = length tool_calls \<and>
     (\<forall>i<length tool_calls. \<exists>dumped. results ! i = ToolDict dumped (tc_id (tool_calls ! i)) \<and>
        (module_globals sys (tc_name (tool_calls ! i)) = None \<longrightarrow> dumped = ''{}''))"
  using assms by (auto simp: list_all2_conv_all_nth answers_def)

section \<open>The claims\<close>

subsection \<open>The provider registry\<close>

text \<open>
  Claim C8. \<^verbatim>\<open>get_external_llm_key\<close> inspects the providers in the order openai, groq,
  gemini, deepseek and returns the first one whose credential is present, with that
  credential; an absent or empty slot is skipped and is no error; when no credential is
  present it signals "none available", by the \<^verbatim>\<open>RuntimeError\<close> that carries the fixed
  message. Its result is a function of the environment alone, and a call of it leaves the
  state as it was: the world, the list objects and the log of posts and provider calls.
\<close>

theorem get_external_llm_key_resolves:
  "get_external_llm_key getenv =
     (case resolve_active_provider getenv of
        Some found \<Rightarrow> Inr found
      | None \<Rightarrow> Inl (RuntimeError OUT_OF_TOKENS_MESSAGE))
   \<and> snd (get_external_llm_key_kw sys kwargs s) = s
   \<and> fst (get_external_llm_key_kw sys [] s) =
       map_sum id (\<lambda>(provider, api_key). PyTuple [provider, api_key])
         (get_external_llm_key (os_getenv sys (world s)))"
proof -
  have "first_api_key getenv provider_env_map = resolve_active_provider getenv"
    by (simp add: provider_env_map_def resolve_active_provider_def credential_def
        split: option.splits)
  then have "get_external_llm_key getenv =
     (case resolve_active_provider getenv of
        Some found \<Rightarrow> Inr found
      | None \<Rightarrow> Inl (RuntimeError OUT_OF_TOKENS_MESSAGE))"
    by (simp add: get_external_llm_key_def)
  moreover have "snd (get_external_llm_key_kw sys kwargs s) = s"
    by (simp add: get_external_llm_key_kw_def split: sum.splits prod.splits)
  moreover have "fst (get_external_llm_key_kw sys [] s) =
       map_sum id (\<lambda>(provider, api_key). PyTuple [provider, api_key])
         (get_external_llm_key (os_getenv sys (world s)))"
    by (simp add: get_external_llm_key_kw_def unexpected_keyword_def split: sum.splits prod.splits)
  ultimately show ?thesis by blast
qed

subsection \<open>The chat loop and the providers\<close>



subsection \<open>When no attempt of a pass succeeds\<close>

text \<open>
  Claim C2. When in a pass no attempt succeeds \<^verbatim>\<open>chat\<close> is to return the fixed message.
  The code does so when no credential is set and when every call of \<^verbatim>\<open>create\<close> raises:
  line 185 catches the exception and lines 189-192 return \<^verbatim>\<open>OUT_OF_TOKENS_MESSAGE\<close>.
  But the client is built on line 176, before the \<^verbatim>\<open>try\<close>. In the first run below
  Groq and Gemini hold credentials and every call of \<^verbatim>\<open>create\<close> raises: \<^verbatim>\<open>chat\<close>
  returns the fixed message. In the second the constructor raises instead: no attempt
  succeeds either, and \<^verbatim>\<open>chat\<close> raises the exception of the constructor, without
  trying Gemini and without returning the fixed message.
\<close>

theorem constructor_failure_leaves_chat:
  "fst (chat (example_system example_env always_raises (Inr 200))
          example_me (Suc 0) ''What is your hourly rate?'' 0 example_state) =
     Some (Inr (Some OUT_OF_TOKENS_MESSAGE)) \<and>
   fst (chat (example_system_no_client example_env always_raises (Inr 200) (Failure ''ImportError''))
          example_me (Suc 0) ''What is your hourly rate?'' 0 example_state) =
     Some (Inl (Failure ''ImportError'')) \<and>
   scans_of (trace (snd (chat
          (example_system_no_client example_env always_raises (Inr 200) (Failure ''ImportError''))
          example_me (Suc 0) ''What is your hourly rate?'' 0 example_state))) =
     [[(''groq'', NoClient (Failure ''ImportError''))]]"
  by (simp add: run_defs always_raises_def)

subsection \<open>Malformed tool arguments\<close>

text \<open>
  Claim C4 says that a tool invocation with malformed arguments does not raise and counts
  as an empty result. The code has no check of the arguments and no handler around the
  call: Python's binding of the keywords raises \<^verbatim>\<open>TypeError\<close>. In the turn below the
  provider asks for \<^verbatim>\<open>record_user_details\<close> with a name and no email, and \<^verbatim>\<open>chat\<close>
  raises \<^verbatim>\<open>TypeError\<close> instead of returning.
\<close>

theorem missing_email_aborts_turn:
  "fst (chat (example_system example_env (example_answer [bob_call]) (Inr 200))
          example_me (Suc (Suc (Suc 0))) ''I am Bob'' 0 example_state) = Some (Inl TypeError)"
  by (simp add: run_defs bob_call_def)

text \<open>
  Claim C4, amended. A request for one of the two tools whose arguments have a key that is
  no parameter of the tool, or lack the required field, raises \<^verbatim>\<open>TypeError\<close> when the
  loop of \<^verbatim>\<open>handle_tool_call\<close> reaches it, whatever results the loop holds by then; no
  result is returned and the remaining requests are not run. A pass of \<^verbatim>\<open>chat\<close> that
  is asked for such a request first appends nothing to the transcript and raises the
  \<^verbatim>\<open>TypeError\<close>, which ends the turn.
\<close>

theorem malformed_tool_call_raises:
  "(malformed tool_call \<longrightarrow>
      handle_tool_call_from sys (tool_call # rest) results s = (Inl TypeError, printed tool_call s) \<and>
      handle_tool_call sys (tool_call # rest) s = (Inl TypeError, printed tool_call s)) \<and>
   (malformed tool_call \<and> tool_calls_requested sys messages s = Some (msg, tool_call # rest, s1) \<longrightarrow>
      chat_step sys messages s = (Some (Inl TypeError), printed tool_call s1) \<and>
      heap (printed tool_call s1) messages = heap s messages \<and>
      chat_loop sys (Suc fuel) messages s = (Some (Inl TypeError), printed tool_call s1))"
proof (intro conjI impI)
  assume "malformed tool_call"
  then show "handle_tool_call_from sys (tool_call # rest) results s = (Inl TypeError, printed tool_call s)"
    by (rule malformed_raises)
next
  assume "malformed tool_call"
  then show "handle_tool_call sys (tool_call # rest) s = (Inl TypeError, printed tool_call s)"
    unfolding handle_tool_call_def by (rule malformed_raises)
next
  assume a: "malformed tool_call \<and> tool_calls_requested sys messages s = Some (msg, tool_call # rest, s1)"
  then have raised: "handle_tool_call sys (tool_call # rest) s1 = (Inl TypeError, printed tool_call s1)"
    unfolding handle_tool_call_def by (simp add: malformed_raises del: handle_tool_call_from.simps)
  from a have step: "chat_step sys messages s = (Some (Inl TypeError), printed tool_call s1)"
    by (simp add: chat_step_requested raised)
  show "chat_step sys messages s = (Some (Inl TypeError), printed tool_call s1)" by (rule step)
  show "heap (printed tool_call s1) messages = heap s messages"
    using a requested_heap [of sys messages s msg "tool_call # rest" s1] by (simp add: printed_def)
  show "chat_loop sys (Suc fuel) messages s = (Some (Inl TypeError), printed tool_call s1)"
    by (simp add: step)
qed

theorem malformed_tool_call_raises_witness:
  "malformed bob_call \<and>
   tool_calls_requested (example_system example_env (example_answer [bob_call]) (Inr 200)) 0 example_state =
     Some (CompletionMessage None (Some [bob_call]), [bob_call],
           example_state\<lparr>world := 2,
             trace := [Scan [(''groq'', Raised (Failure ''rate limit'')), (''gemini'', Returned)]]\<rparr>) \<and>
   chat_loop (example_system example_env (example_answer [bob_call]) (Inr 200)) (Suc 0) 0 example_state =
     (Some (Inl TypeError),
      example_state\<lparr>world := 2,
        trace := [Scan [(''groq'', Raised (Failure ''rate limit'')), (''gemini'', Returned)],
                  Print ''Tool called: record_user_details'']\<rparr>)"
proof -
  let ?sys = "example_system example_env (example_answer [bob_call]) (Inr 200)"
  let ?s1 = "example_state\<lparr>world := 2,
             trace := [Scan [(''groq'', Raised (Failure ''rate limit'')), (''gemini'', Returned)]]\<rparr>"
  have bad: "malformed bob_call"
    by (simp add: malformed_def bob_call_def unexpected_keyword_def)
  have asked: "tool_calls_requested ?sys 0 example_state =
     Some (CompletionMessage None (Some [bob_call]), [bob_call], ?s1)"
    by (simp add: tool_calls_requested_def run_defs)
  from bad asked malformed_tool_call_raises [of bob_call ?sys "[]" "[]" example_state 0
      "CompletionMessage None (Some [bob_call])" ?s1 0]
  have "chat_loop ?sys (Suc 0) 0 example_state = (Some (Inl TypeError), printed bob_call ?s1)"
    by blast
  then have "chat_loop ?sys (Suc 0) 0 example_state =
     (Some (Inl TypeError),
      example_state\<lparr>world := 2,
        trace := [Scan [(''groq'', Raised (Failure ''rate limit'')), (''gemini'', Returned)],
                  Print ''Tool called: record_user_details'']\<rparr>)"
    by (simp add: printed_def bob_call_def example_state_def)
  with bad asked show ?thesis by blast
qed

subsection \<open>A failing notifier\<close>

text \<open>
  Claim C5 says that a failure of the notifier does not reach the chat loop. \<^verbatim>\<open>push\<close>
  calls \<^verbatim>\<open>requests.post\<close> with no handler, and neither the tools nor
  \<^verbatim>\<open>handle_tool_call\<close> nor \<^verbatim>\<open>chat\<close> catch what it raises. In the turn below the
  provider asks for \<^verbatim>\<open>record_user_details\<close> with an email, the post raises, and
  \<^verbatim>\<open>chat\<close> raises the same exception.
\<close>

theorem failing_notifier_aborts_turn:
  "fst (chat (example_system example_env (example_answer [email_call]) (Inl (Failure ''connection refused'')))
          example_me (Suc (Suc (Suc 0))) ''My email is a@b.com'' 0 example_state) =
     Some (Inl (Failure ''connection refused''))"
  by (simp add: run_defs)

text \<open>
  Claim C5, amended. The notification is sent with one \<^verbatim>\<open>requests.post\<close> whose response
  is ignored: whatever HTTP status comes back, the tool returns its result. An exception
  raised by the post is not caught: \<^verbatim>\<open>push\<close>, the tool that called it,
  \<^verbatim>\<open>handle_tool_call\<close> and \<^verbatim>\<open>chat\<close> raise it in turn, so a failing notifier ends
  the turn with its exception.
\<close>

theorem notifier_failure_propagates:
  "(fst (requests_post sys pushover_url (push_data sys s text) (world s)) = Inl e \<longrightarrow>
      fst (push sys text s) = Inl e) \<and>
   (fst (requests_post sys pushover_url
          (push_data sys s (''Recording '' @ name @ '' with email '' @ email @ '' and notes '' @ notes))
          (world s)) = Inl e \<longrightarrow>
      fst (record_user_details sys email name notes s) = Inl e) \<and>
   (fst (requests_post sys pushover_url (push_data sys s (''Recording '' @ question)) (world s)) = Inl e \<longrightarrow>
      fst (record_unknown_question sys question s) = Inl e) \<and>
   (fst (requests_post sys pushover_url
          (push_data sys s (''Recording '' @ name @ '' with email '' @ email @ '' and notes '' @ notes))
          (world s)) = Inr status \<longrightarrow>
      fst (record_user_details sys email name notes s) = Inr (PyDict [(''recorded'', ''ok'')])) \<and>
   ((\<forall>url data w. fst (requests_post sys url data w) = Inl e) \<and>
    tool_calls_requested sys messages s = Some (msg, tool_call # rest, s1) \<and>
    (tc_name tool_call = ''record_user_details'' \<or> tc_name tool_call = ''record_unknown_question'') \<and>
    tc_arguments tool_call = Object kwargs \<and> \<not> malformed tool_call \<longrightarrow>
      fst (handle_tool_call sys (tool_call # rest) s1) = Inl e \<and>
      fst (chat_step sys messages s) = Some (Inl e) \<and>
      fst (chat_loop sys (Suc fuel) messages s) = Some (Inl e))"
proof (intro conjI impI)
  assume "fst (requests_post sys pushover_url (push_data sys s text) (world s)) = Inl e"
  then show "fst (push sys text s) = Inl e" by (simp add: push_eq)
next
  assume "fst (requests_post sys pushover_url
          (push_data sys s (''Recording '' @ name @ '' with email '' @ email @ '' and notes '' @ notes))
          (world s)) = Inl e"
  then show "fst (record_user_details sys email name notes s) = Inl e"
    by (simp add: record_user_details_eq)
next
  assume "fst (requests_post sys pushover_url (push_data sys s (''Recording '' @ question)) (world s)) = Inl e"
  then show "fst (record_unknown_question sys question s) = Inl e"
    by (simp add: record_unknown_question_eq)
next
  assume "fst (requests_post sys pushover_url
          (push_data sys s (''Recording '' @ name @ '' with email '' @ email @ '' and notes '' @ notes))
          (world s)) = Inr status"
  then show "fst (record_user_details sys email name notes s) = Inr (PyDict [(''recorded'', ''ok'')])"
    by (simp add: record_user_details_eq)
next
  assume a: "(\<forall>url data w. fst (requests_post sys url data w) = Inl e) \<and>
    tool_calls_requested sys messages s = Some (msg, tool_call # rest, s1) \<and>
    (tc_name tool_call = ''record_user_details'' \<or> tc_name tool_call = ''record_unknown_question'') \<and>
    tc_arguments tool_call = Object kwargs \<and> \<not> malformed tool_call"
  then have valid: "tc_arguments tool_call \<noteq> Invalid" by simp
  from a tool_call_notifies [of tool_call kwargs sys "printed tool_call s1"]
  obtain sent where
    "call_or_empty sys (module_globals sys (tc_name tool_call)) (tc_arguments tool_call)
       (printed tool_call s1) = (Inl e, pushed sys sent (printed tool_call s1))"
    by auto
  then have raised: "handle_tool_call sys (tool_call # rest) s1 =
      (Inl e, pushed sys sent (printed tool_call s1))"
    unfolding handle_tool_call_def
    by (simp add: handle_tool_call_from_step [OF valid] del: handle_tool_call_from.simps)
  then show "fst (handle_tool_call sys (tool_call # rest) s1) = Inl e" by simp
  from a raised have step: "chat_step sys messages s = (Some (Inl e), pushed sys sent (printed tool_call s1))"
    by (simp add: chat_step_requested)
  then show "fst (chat_step sys messages s) = Some (Inl e)" by simp
  from step show "fst (chat_loop sys (Suc fuel) messages s) = Some (Inl e)" by simp
qed

theorem notifier_failure_propagates_witness:
  "fst (requests_post (example_system example_env (example_answer [email_call]) (Inl (Failure ''connection refused'')))
          pushover_url
          (push_data (example_system example_env (example_answer [email_call]) (Inl (Failure ''connection refused'')))
             example_state ''Recording Bob with email a@b.com and notes none'')
          (world example_state)) = Inl (Failure ''connection refused'') \<and>
   fst (record_user_details (example_system example_env (example_answer [email_call]) (Inl (Failure ''connection refused'')))
          ''a@b.com'' ''Bob'' ''none'' example_state) = Inl (Failure ''connection refused'') \<and>
   fst (record_user_details (example_system example_env (example_answer [email_call]) (Inr 500))
          ''a@b.com'' ''Bob'' ''none'' example_state) = Inr (PyDict [(''recorded'', ''ok'')]) \<and>
   \<not> malformed email_call \<and>
   fst (chat_loop (example_system example_env (example_answer [email_call]) (Inl (Failure ''connection refused'')))
          (Suc 0) 0 example_state) = Some (Inl (Failure ''connection refused''))"
proof -
  let ?e = "Failure ''connection refused''"
  let ?sys = "example_system example_env (example_answer [email_call]) (Inl ?e)"
  let ?ok = "example_system example_env (example_answer [email_call]) (Inr 500)"
  let ?s1 = "example_state\<lparr>world := 2,
             trace := [Scan [(''groq'', Raised (Failure ''rate limit'')), (''gemini'', Returned)]]\<rparr>"
  note main = notifier_failure_propagates
  have down: "\<forall>url data w. fst (requests_post ?sys url data w) = Inl ?e"
    by (simp add: example_system_def)
  have up: "fst (requests_post ?ok pushover_url
      (push_data ?ok example_state (''Recording '' @ ''Bob'' @ '' with email '' @ ''a@b.com'' @ '' and notes '' @ ''none''))
      (world example_state)) = Inr 500"
    by (simp add: example_system_def)
  have good: "\<not> malformed email_call"
    by (simp add: malformed_def email_call_def unexpected_keyword_def)
  have asked: "tool_calls_requested ?sys 0 example_state =
     Some (CompletionMessage None (Some [email_call]), [email_call], ?s1)"
    by (simp add: tool_calls_requested_def run_defs)
  have name: "tc_name email_call = ''record_user_details''"
    and args: "tc_arguments email_call = Object [(''email'', ''a@b.com'')]"
    by (simp_all add: email_call_def)
  from down have first: "fst (requests_post ?sys pushover_url
      (push_data ?sys example_state ''Recording Bob with email a@b.com and notes none'')
      (world example_state)) = Inl ?e" by blast
  with main [where sys = ?sys and s = example_state and e = ?e and name = "''Bob''"
      and email = "''a@b.com''" and ?notes = "''none''"]
  have second: "fst (record_user_details ?sys ''a@b.com'' ''Bob'' ''none'' example_state) = Inl ?e"
    by simp
  from up main [where sys = ?ok and s = example_state and name = "''Bob''"
      and email = "''a@b.com''" and ?notes = "''none''" and status = 500]
  have third: "fst (record_user_details ?ok ''a@b.com'' ''Bob'' ''none'' example_state) =
      Inr (PyDict [(''recorded'', ''ok'')])"
    by blast
  from down asked name args good
    main [where sys = ?sys and e = ?e and messages = 0 and s = example_state
      and msg = "CompletionMessage None (Some [email_call])" and tool_call = email_call
      and rest = "[]" and ?s1.0 = ?s1 and kwargs = "[(''email'', ''a@b.com'')]" and fuel = 0]
  have fourth: "fst (chat_loop ?sys (Suc 0) 0 example_state) = Some (Inl ?e)"
    by blast
  from first second third good fourth show ?thesis by blast
qed

subsection \<open>What the chat entry point returns and raises\<close>




subsection \<open>The two tools\<close>

text \<open>
  Claim C7 says that the two tools return \<^verbatim>\<open>{"recorded": "ok"}\<close>. They return it after
  \<^verbatim>\<open>push\<close> has returned; when the post of \<^verbatim>\<open>push\<close> raises, the tool raises and
  returns nothing, as here.
\<close>

theorem record_user_details_can_raise:
  "fst (record_user_details (example_system example_env always_raises (Inl (Failure ''connection refused'')))
          ''a@b.com'' ''Name not provided'' ''not provided'' example_state) =
     Inl (Failure ''connection refused'')"
  by (simp add: run_defs)

text \<open>
  Claim C7, amended. \<^verbatim>\<open>record_user_details\<close>, called with an email and with name and
  notes that default to \<^verbatim>\<open>Name not provided\<close> and \<^verbatim>\<open>not provided\<close>, makes exactly one
  post, whose message is
  \<^verbatim>\<open>Recording {name} with email {email} and notes {notes}\<close>; \<^verbatim>\<open>record_unknown_question\<close>,
  called with a question, makes exactly one post, whose message is
  \<^verbatim>\<open>Recording {question}\<close>. Each returns \<^verbatim>\<open>{"recorded": "ok"}\<close> when the post
  returns, whatever its status, and raises the exception of the post when it raises.
\<close>

theorem tools_post_once_and_return_ok:
  "record_user_details sys email name notes s =
     (case fst (requests_post sys pushover_url
            (push_data sys s (''Recording '' @ name @ '' with email '' @ email @ '' and notes '' @ notes))
            (world s)) of
        Inl e \<Rightarrow> Inl e
      | Inr status \<Rightarrow> Inr (PyDict [(''recorded'', ''ok'')]),
      pushed sys (''Recording '' @ name @ '' with email '' @ email @ '' and notes '' @ notes) s) \<and>
   record_unknown_question sys question s =
     (case fst (requests_post sys pushover_url (push_data sys s (''Recording '' @ question)) (world s)) of
        Inl e \<Rightarrow> Inl e
      | Inr status \<Rightarrow> Inr (PyDict [(''recorded'', ''ok'')]),
      pushed sys (''Recording '' @ question) s) \<and>
   posts_of (trace (pushed sys text s)) = posts_of (trace s) @ [push_data sys s text] \<and>
   map_of (push_data sys s text) ''message'' = Some (Some text) \<and>
   (\<not> unexpected_keyword kwargs [''email'', ''name'', ''notes''] \<and> map_of kwargs ''email'' = Some email \<longrightarrow>
      record_user_details_kw sys kwargs s =
        record_user_details sys email
          (case map_of kwargs ''name'' of None \<Rightarrow> ''Name not provided'' | Some given \<Rightarrow> given)
          (case map_of kwargs ''notes'' of None \<Rightarrow> ''not provided'' | Some given \<Rightarrow> given) s) \<and>
   (\<not> unexpected_keyword kwargs [''question''] \<and> map_of kwargs ''question'' = Some question \<longrightarrow>
      record_unknown_question_kw sys kwargs s = record_unknown_question sys question s)"
  by (simp add: record_user_details_eq record_unknown_question_eq posts_of_pushed push_data_def
      record_user_details_kw_def record_unknown_question_kw_def keyword_or_def)

theorem tools_post_once_and_return_ok_witness:
  "\<not> unexpected_keyword [(''email'', ''a@b.com'')] [''email'', ''name'', ''notes''] \<and>
   map_of [(''email'', ''a@b.com'')] ''email'' = Some ''a@b.com'' \<and>
   record_user_details_kw (example_system example_env always_raises (Inr 200))
       [(''email'', ''a@b.com'')] example_state =
     (Inr (PyDict [(''recorded'', ''ok'')]),
      example_state\<lparr>trace := [Post pushover_url
         [(''token'', None), (''user'', None),
          (''message'', Some ''Recording Name not provided with email a@b.com and notes not provided'')]]\<rparr>) \<and>
   \<not> unexpected_keyword [(''question'', ''Do you ski?'')] [''question''] \<and>
   record_unknown_question_kw (example_system example_env always_raises (Inr 200))
       [(''question'', ''Do you ski?'')] example_state =
     (Inr (PyDict [(''recorded'', ''ok'')]),
      example_state\<lparr>trace := [Post pushover_url
         [(''token'', None), (''user'', None), (''message'', Some ''Recording Do you ski?'')]]\<rparr>)"
proof -
  let ?sys = "example_system example_env always_raises (Inr 200)"
  note main = tools_post_once_and_return_ok
  have kw1: "\<not> unexpected_keyword [(''email'', ''a@b.com'')] [''email'', ''name'', ''notes''] \<and>
      map_of [(''email'', ''a@b.com'')] ''email'' = Some ''a@b.com''"
    by (simp add: unexpected_keyword_def)
  have kw2: "\<not> unexpected_keyword [(''question'', ''Do you ski?'')] [''question''] \<and>
      map_of [(''question'', ''Do you ski?'')] ''question'' = Some ''Do you ski?''"
    by (simp add: unexpected_keyword_def)
  from kw1 main [where sys = ?sys and kwargs = "[(''email'', ''a@b.com'')]" and email = "''a@b.com''"
      and s = example_state]
  have "record_user_details_kw ?sys [(''email'', ''a@b.com'')] example_state =
      record_user_details ?sys ''a@b.com'' ''Name not provided'' ''not provided'' example_state"
    by simp
  also have "\<dots> = (Inr (PyDict [(''recorded'', ''ok'')]),
      example_state\<lparr>trace := [Post pushover_url
         [(''token'', None), (''user'', None),
          (''message'', Some ''Recording Name not provided with email a@b.com and notes not provided'')]]\<rparr>)"
    using main [where sys = ?sys and email = "''a@b.com''" and name = "''Name not provided''"
      and ?notes = "''not provided''" and s = example_state]
    by (simp add: pushed_def push_data_def example_system_def example_env_def example_state_def)
  finally have first: "record_user_details_kw ?sys [(''email'', ''a@b.com'')] example_state =
     (Inr (PyDict [(''recorded'', ''ok'')]),
      example_state\<lparr>trace := [Post pushover_url
         [(''token'', None), (''user'', None),
          (''message'', Some ''Recording Name not provided with email a@b.com and notes not provided'')]]\<rparr>)" .
  from kw2 main [where sys = ?sys and kwargs = "[(''question'', ''Do you ski?'')]"
      and question = "''Do you ski?''" and s = example_state]
  have "record_unknown_question_kw ?sys [(''question'', ''Do you ski?'')] example_state =
     (Inr (PyDict [(''recorded'', ''ok'')]),
      example_state\<lparr>trace := [Post pushover_url
         [(''token'', None), (''user'', None), (''message'', Some ''Recording Do you ski?'')]]\<rparr>)"
    by (simp add: pushed_def push_data_def example_system_def example_env_def example_state_def)
  with kw1 kw2 first show ?thesis by blast
qed

subsection \<open>Tool calls and the transcript\<close>

text \<open>
  Claim C3 says that for every answer with N tool call requests the transcript gains the
  assistant message and N tool messages. It fails in two ways. In the first turn below
  the answer carries two requests under the finish reason \<^verbatim>\<open>tool_calls\<close>; the first is
  run and posts its notification, the second lacks its required question and raises, and
  the transcript is left as it was before the answer. In the second turn the answer
  carries a request under the finish reason \<^verbatim>\<open>stop\<close>: line 194 looks at the finish
  reason only, so the request is not run, nothing is posted, nothing is appended, and
  \<^verbatim>\<open>chat\<close> returns the content of the answer.
\<close>

theorem raising_request_leaves_transcript:
  "fst (chat (example_system example_env (example_answer [email_call, no_question_call]) (Inr 200))
          example_me (Suc (Suc (Suc 0))) ''My email is a@b.com'' 0 example_state) = Some (Inl TypeError) \<and>
   heap (snd (chat (example_system example_env (example_answer [email_call, no_question_call]) (Inr 200))
          example_me (Suc (Suc (Suc 0))) ''My email is a@b.com'' 0 example_state)) 1 =
     [Dict ''system'' (system_prompt example_me), Dict ''user'' ''My email is a@b.com''] \<and>
   length (posts_of (trace (snd (chat
          (example_system example_env (example_answer [email_call, no_question_call]) (Inr 200))
          example_me (Suc (Suc (Suc 0))) ''My email is a@b.com'' 0 example_state)))) = 1 \<and>
   fst (chat (example_system example_env (gemini_answers (stop_with_calls [email_call])) (Inr 200))
          example_me (Suc (Suc (Suc 0))) ''My email is a@b.com'' 0 example_state) =
     Some (Inr (Some ''Noted.'')) \<and>
   heap (snd (chat (example_system example_env (gemini_answers (stop_with_calls [email_call])) (Inr 200))
          example_me (Suc (Suc (Suc 0))) ''My email is a@b.com'' 0 example_state)) 1 =
     [Dict ''system'' (system_prompt example_me), Dict ''user'' ''My email is a@b.com''] \<and>
   posts_of (trace (snd (chat
          (example_system example_env (gemini_answers (stop_with_calls [email_call])) (Inr 200))
          example_me (Suc (Suc (Suc 0))) ''My email is a@b.com'' 0 example_state))) = []"
  by (simp add: run_defs no_question_call_def)

text \<open>
  Claim C3, amended. Take the answer that wins a pass, with a first choice whose message
  carries N tool call requests. When the finish reason of that choice is \<^verbatim>\<open>tool_calls\<close>,
  then either handling the requests raises, the pass raises the same exception and the
  transcript is not changed, or handling returns and the pass appends to the transcript
  the assistant message followed by exactly one tool message for each request, in the
  order of the requests, each with the call id of its request. When the finish reason is
  anything else, the requests are not run: nothing is posted, nothing is appended, and
  \<^verbatim>\<open>chat\<close> returns the content of the message. Within a turn the transcript, which
  starts as the system message, the history and the user message, is only ever extended.
\<close>

theorem tool_calls_answered_in_order:
  "(winning_answer sys messages s = Some (r, s1) \<and> choices r = Some (first # others) \<and>
    choice_message first = Some msg \<and> msg_tool_calls msg = Some tool_calls \<and>
    chat_step sys messages s = (out, s') \<longrightarrow>
      (if finish_reason first = ''tool_calls''
       then (case fst (handle_tool_call sys tool_calls s1) of
               Inl e \<Rightarrow> out = Some (Inl e) \<and> heap s' messages = heap s messages
             | Inr results \<Rightarrow>
                 out = None \<and> heap s' messages = heap s messages @ [Obj msg] @ results \<and>
                 length results = length tool_calls \<and>
                 (\<forall>i<length tool_calls. \<exists>dumped.
                    results ! i = ToolDict dumped (tc_id (tool_calls ! i))))
       else out = Some (Inr (msg_content msg)) \<and> s' = s1 \<and>
            heap s' messages = heap s messages \<and> posts_of (trace s') = posts_of (trace s))) \<and>
   (chat_loop sys fuel messages s = (out, s') \<longrightarrow> prefix (heap s messages) (heap s' messages)) \<and>
   (chat sys self fuel message history s = (out, s') \<longrightarrow>
      prefix ([Dict ''system'' (system_prompt self)] @ heap s history @ [Dict ''user'' message])
        (heap s' (fresh s)))"
proof (intro conjI impI)
  assume a: "winning_answer sys messages s = Some (r, s1) \<and> choices r = Some (first # others) \<and>
    choice_message first = Some msg \<and> msg_tool_calls msg = Some tool_calls \<and>
    chat_step sys messages s = (out, s')"
  then have won: "winning_answer sys messages s = Some (r, s1)" by simp
  note st = won_state [OF won]
  show "if finish_reason first = ''tool_calls''
       then (case fst (handle_tool_call sys tool_calls s1) of
               Inl e \<Rightarrow> out = Some (Inl e) \<and> heap s' messages = heap s messages
             | Inr results \<Rightarrow>
                 out = None \<and> heap s' messages = heap s messages @ [Obj msg] @ results \<and>
                 length results = length tool_calls \<and>
                 (\<forall>i<length tool_calls. \<exists>dumped.
                    results ! i = ToolDict dumped (tc_id (tool_calls ! i))))
       else out = Some (Inr (msg_content msg)) \<and> s' = s1 \<and>
            heap s' messages = heap s messages \<and> posts_of (trace s') = posts_of (trace s)"
  proof (cases "finish_reason first = ''tool_calls''")
    case False
    with a st show ?thesis by (auto simp: chat_step_won [OF won])
  next
    case True
    obtain res s2 where h: "handle_tool_call sys tool_calls s1 = (res, s2)"
      by (cases "handle_tool_call sys tool_calls s1")
    from handle_tool_call_effect [OF h] st have heap2: "heap s2 = heap s"
      by (simp add: tool_effect_def)
    show ?thesis
    proof (cases res)
      case (Inl e)
      with a True h heap2 show ?thesis by (auto simp: chat_step_won [OF won])
    next
      case (Inr results)
      with h have "list_all2 (answers sys) tool_calls results"
        by (auto intro: handle_tool_call_answers)
      from list_all2_answers_nth [OF this] Inr a True h heap2 show ?thesis
        by (auto simp: chat_step_won [OF won])
    qed
  qed
next
  assume "chat_loop sys fuel messages s = (out, s')"
  from chat_loop_frame [OF this] show "prefix (heap s messages) (heap s' messages)" by simp
next
  assume "chat sys self fuel message history s = (out, s')"
  then have "chat_loop sys fuel (fresh s) (s\<lparr>heap := (heap s)
      (fresh s := [Dict ''system'' (system_prompt self)] @ heap s history @ [Dict ''user'' message]),
      fresh := Suc (fresh s)\<rparr>) = (out, s')"
    by (simp add: chat_def Let_def)
  from chat_loop_frame [OF this]
  show "prefix ([Dict ''system'' (system_prompt self)] @ heap s history @ [Dict ''user'' message])
        (heap s' (fresh s))" by simp
qed

theorem tool_calls_answered_in_order_witness:
  "winning_answer (example_system example_env (example_answer [email_call]) (Inr 200)) 0 example_state =
     Some (tool_response [email_call],
           example_state\<lparr>world := 2,
             trace := [Scan [(''groq'', Raised (Failure ''rate limit'')), (''gemini'', Returned)]]\<rparr>) \<and>
   fst (handle_tool_call (example_system example_env (example_answer [email_call]) (Inr 200)) [email_call]
          (example_state\<lparr>world := 2,
             trace := [Scan [(''groq'', Raised (Failure ''rate limit'')), (''gemini'', Returned)]]\<rparr>)) =
     Inr [ToolDict ''{\"recorded\": \"ok\"}'' ''call_1''] \<and>
   fst (chat_step (example_system example_env (example_answer [email_call]) (Inr 200)) 0 example_state) = None \<and>
   heap (snd (chat_step (example_system example_env (example_answer [email_call]) (Inr 200)) 0 example_state)) 0 =
     [Obj (CompletionMessage None (Some [email_call])), ToolDict ''{\"recorded\": \"ok\"}'' ''call_1''] \<and>
   winning_answer (example_system example_env (gemini_answers (stop_with_calls [email_call])) (Inr 200))
       0 example_state =
     Some (stop_with_calls [email_call],
           example_state\<lparr>world := 2,
             trace := [Scan [(''groq'', Raised (Failure ''rate limit'')), (''gemini'', Returned)]]\<rparr>) \<and>
   chat_step (example_system example_env (gemini_answers (stop_with_calls [email_call])) (Inr 200))
       0 example_state =
     (Some (Inr (Some ''Noted.'')),
      example_state\<lparr>world := 2,
        trace := [Scan [(''groq'', Raised (Failure ''rate limit'')), (''gemini'', Returned)]]\<rparr>) \<and>
   prefix [Dict ''system'' (system_prompt example_me), Dict ''user'' ''My email is a@b.com'']
     (heap (snd (chat (example_system example_env (example_answer [email_call]) (Inr 200))
        example_me (Suc (Suc (Suc 0))) ''My email is a@b.com'' 0 example_state)) 1)"
proof -
  let ?sys = "example_system example_env (example_answer [email_call]) (Inr 200)"
  let ?stop = "example_system example_env (gemini_answers (stop_with_calls [email_call])) (Inr 200)"
  let ?msg = "CompletionMessage None (Some [email_call])"
  let ?noted = "CompletionMessage (Some ''Noted.'') (Some [email_call])"
  let ?s1 = "example_state\<lparr>world := 2,
             trace := [Scan [(''groq'', Raised (Failure ''rate limit'')), (''gemini'', Returned)]]\<rparr>"
  let ?step = "chat_step ?sys 0 example_state"
  let ?step2 = "chat_step ?stop 0 example_state"
  let ?run = "chat ?sys example_me (Suc (Suc (Suc 0))) ''My email is a@b.com'' 0 example_state"
  note main = tool_calls_answered_in_order
  have won: "winning_answer ?sys 0 example_state = Some (tool_response [email_call], ?s1)"
    by (simp add: run_defs)
  have won2: "winning_answer ?stop 0 example_state = Some (stop_with_calls [email_call], ?s1)"
    by (simp add: run_defs)
  have handled: "fst (handle_tool_call ?sys [email_call] ?s1) =
      Inr [ToolDict ''{\"recorded\": \"ok\"}'' ''call_1'']"
    by (simp add: run_defs)
  have "winning_answer ?sys 0 example_state = Some (tool_response [email_call], ?s1) \<and>
      choices (tool_response [email_call]) = Some (Choice ''tool_calls'' (Some ?msg) # []) \<and>
      choice_message (Choice ''tool_calls'' (Some ?msg)) = Some ?msg \<and>
      msg_tool_calls ?msg = Some [email_call] \<and> ?step = (fst ?step, snd ?step)"
    using won by (simp add: tool_response_def)
  with main [where sys = ?sys and messages = 0 and s = example_state
      and r = "tool_response [email_call]" and ?s1.0 = ?s1
      and first = "Choice ''tool_calls'' (Some ?msg)" and others = "[]" and msg = ?msg
      and tool_calls = "[email_call]" and out = "fst ?step" and s' = "snd ?step"]
  have "case fst (handle_tool_call ?sys [email_call] ?s1) of
         Inl e \<Rightarrow> fst ?step = Some (Inl e) \<and> heap (snd ?step) 0 = heap example_state 0
       | Inr results \<Rightarrow>
           fst ?step = None \<and> heap (snd ?step) 0 = heap example_state 0 @ [Obj ?msg] @ results \<and>
           length results = length [email_call] \<and>
           (\<forall>i<length [email_call]. \<exists>dumped. results ! i = ToolDict dumped (tc_id ([email_call] ! i)))"
    by simp
  with handled have step: "fst ?step = None"
    "heap (snd ?step) 0 = [Obj ?msg, ToolDict ''{\"recorded\": \"ok\"}'' ''call_1'']"
    by (simp_all add: example_state_def)
  have "winning_answer ?stop 0 example_state = Some (stop_with_calls [email_call], ?s1) \<and>
      choices (stop_with_calls [email_call]) = Some (Choice ''stop'' (Some ?noted) # []) \<and>
      choice_message (Choice ''stop'' (Some ?noted)) = Some ?noted \<and>
      msg_tool_calls ?noted = Some [email_call] \<and> ?step2 = (fst ?step2, snd ?step2)"
    using won2 by (simp add: stop_with_calls_def)
  with main [where sys = ?stop and messages = 0 and s = example_state
      and r = "stop_with_calls [email_call]" and ?s1.0 = ?s1
      and first = "Choice ''stop'' (Some ?noted)" and others = "[]" and msg = ?noted
      and tool_calls = "[email_call]" and out = "fst ?step2" and s' = "snd ?step2"]
  have "fst ?step2 = Some (Inr (msg_content ?noted)) \<and> snd ?step2 = ?s1"
    by simp
  then have step2: "?step2 = (Some (Inr (Some ''Noted.'')), ?s1)"
    by (simp add: prod_eq_iff)
  have "?run = (fst ?run, snd ?run)" by simp
  with main [where sys = ?sys and self = example_me and fuel = "Suc (Suc (Suc 0))"
      and message = "''My email is a@b.com''" and history = 0 and s = example_state
      and out = "fst ?run" and s' = "snd ?run"]
  have "prefix ([Dict ''system'' (system_prompt example_me)] @ heap example_state 0 @
      [Dict ''user'' ''My email is a@b.com'']) (heap (snd ?run) (fresh example_state))"
    by blast
  then have turn: "prefix [Dict ''system'' (system_prompt example_me), Dict ''user'' ''My email is a@b.com'']
     (heap (snd ?run) 1)"
    by (simp add: example_state_def)
  from won handled step won2 step2 turn show ?thesis by blast
qed

subsection \<open>Tool names without a binding\<close>

text \<open>
  Claim C10 says that every request whose tool name has no module-level binding still
  gets its tool message. \<^verbatim>\<open>json.loads\<close> runs before the name is looked up, so a
  request for an unbound name whose arguments are not JSON raises and gets no message.
\<close>

theorem unbound_name_with_bad_json_raises:
  "module_globals (example_system example_env (example_answer [weather_call]) (Inr 200))
      (tc_name weather_call) = None \<and>
   handle_tool_call (example_system example_env (example_answer [weather_call]) (Inr 200))
      [weather_call] example_state = (Inl JSONDecodeError, example_state)"
  by (simp add: run_defs weather_call_def)

text \<open>
  Claim C10, amended. A request whose tool name has no module-level binding and whose
  arguments \<^verbatim>\<open>json.loads\<close> accepts does not raise, calls nothing and posts nothing: the
  loop appends for it a tool message with the empty JSON object as content and the call
  id of the request, and goes on with the next request; if \<^verbatim>\<open>json.loads\<close> rejects the
  arguments the request raises \<^verbatim>\<open>JSONDecodeError\<close>. So whenever \<^verbatim>\<open>handle_tool_call\<close>
  returns, its results answer the requests one for one and in order, those for unbound
  names with \<^verbatim>\<open>{}\<close>. The name is looked up among all module-level bindings and not in
  a registry of the tools: \<^verbatim>\<open>push\<close> and \<^verbatim>\<open>get_external_llm_key\<close> resolve too, and a
  request for \<^verbatim>\<open>push\<close> runs it.
\<close>

theorem unbound_tool_name_answered_empty:
  "(module_globals sys (tc_name tool_call) = None \<and> tc_arguments tool_call \<noteq> Invalid \<longrightarrow>
      handle_tool_call_from sys (tool_call # rest) results s =
        handle_tool_call_from sys rest (results @ [ToolDict ''{}'' (tc_id tool_call)])
          (printed tool_call s)) \<and>
   (tc_arguments tool_call = Invalid \<longrightarrow>
      handle_tool_call_from sys (tool_call # rest) results s = (Inl JSONDecodeError, s)) \<and>
   (handle_tool_call sys tool_calls s = (Inr answered, s') \<longrightarrow>
      length answered = length tool_calls \<and>
      (\<forall>i<length tool_calls. \<exists>dumped.
         answered ! i = ToolDict dumped (tc_id (tool_calls ! i)) \<and>
         (module_globals sys (tc_name (tool_calls ! i)) = None \<longrightarrow> dumped = ''{}''))) \<and>
   module_globals sys ''push'' = Some Fn_push \<and>
   module_globals sys ''get_external_llm_key'' = Some Fn_get_external_llm_key \<and>
   handle_tool_call sys [ToolCall call_id ''push'' (Object [(''text'', text)])] s =
     (case fst (requests_post sys pushover_url
            (push_data sys (printed (ToolCall call_id ''push'' (Object [(''text'', text)])) s) text)
            (world s)) of
        Inl e \<Rightarrow> Inl e
      | Inr status \<Rightarrow> Inr [ToolDict ''null'' call_id],
      pushed sys text (printed (ToolCall call_id ''push'' (Object [(''text'', text)])) s))"
proof (intro conjI impI)
  assume "module_globals sys (tc_name tool_call) = None \<and> tc_arguments tool_call \<noteq> Invalid"
  then show "handle_tool_call_from sys (tool_call # rest) results s =
        handle_tool_call_from sys rest (results @ [ToolDict ''{}'' (tc_id tool_call)])
          (printed tool_call s)"
    by (simp add: handle_tool_call_from_unbound del: handle_tool_call_from.simps)
next
  assume "tc_arguments tool_call = Invalid"
  then show "handle_tool_call_from sys (tool_call # rest) results s = (Inl JSONDecodeError, s)"
    by (rule handle_tool_call_from_invalid)
next
  assume "handle_tool_call sys tool_calls s = (Inr answered, s')"
  then have "list_all2 (answers sys) tool_calls answered" by (rule handle_tool_call_answers)
  from list_all2_answers_nth [OF this]
  show "length answered = length tool_calls" and
    "\<forall>i<length tool_calls. \<exists>dumped.
         answered ! i = ToolDict dumped (tc_id (tool_calls ! i)) \<and>
         (module_globals sys (tc_name (tool_calls ! i)) = None \<longrightarrow> dumped = ''{}'')"
    by simp_all
next
  show "module_globals sys ''push'' = Some Fn_push" by (simp add: module_globals_def)
  show "module_globals sys ''get_external_llm_key'' = Some Fn_get_external_llm_key"
    by (simp add: module_globals_def)
  show "handle_tool_call sys [ToolCall call_id ''push'' (Object [(''text'', text)])] s =
     (case fst (requests_post sys pushover_url
            (push_data sys (printed (ToolCall call_id ''push'' (Object [(''text'', text)])) s) text)
            (world s)) of
        Inl e \<Rightarrow> Inl e
      | Inr status \<Rightarrow> Inr [ToolDict ''null'' call_id],
      pushed sys text (printed (ToolCall call_id ''push'' (Object [(''text'', text)])) s))"
    by (simp add: handle_tool_call_def printed_def call_or_empty_def module_globals_def
        push_kw_def unexpected_keyword_def push_eq split: sum.splits)
qed

theorem unbound_tool_name_answered_empty_witness:
  "module_globals (example_system example_env (example_answer [unknown_call]) (Inr 200))
      (tc_name unknown_call) = None \<and>
   tc_arguments unknown_call \<noteq> Invalid \<and>
   handle_tool_call (example_system example_env (example_answer [unknown_call]) (Inr 200))
      [unknown_call, email_call] example_state =
     (Inr [ToolDict ''{}'' ''call_7'', ToolDict ''{\"recorded\": \"ok\"}'' ''call_1''],
      snd (handle_tool_call (example_system example_env (example_answer [unknown_call]) (Inr 200))
        [unknown_call, email_call] example_state)) \<and>
   posts_of (trace (snd (handle_tool_call (example_system example_env (example_answer [unknown_call]) (Inr 200))
        [unknown_call] example_state))) = []"
proof -
  let ?sys = "example_system example_env (example_answer [unknown_call]) (Inr 200)"
  let ?h = "handle_tool_call ?sys [unknown_call, email_call] example_state"
  note main = unbound_tool_name_answered_empty
  have unbound: "module_globals ?sys (tc_name unknown_call) = None"
    by (simp add: module_globals_def unknown_call_def example_system_def)
  have valid: "tc_arguments unknown_call \<noteq> Invalid" by (simp add: unknown_call_def)
  from unbound valid main [where sys = ?sys and tool_call = unknown_call and rest = "[email_call]"
      and results = "[]" and s = example_state]
  have "handle_tool_call_from ?sys [unknown_call, email_call] [] example_state =
      handle_tool_call_from ?sys [email_call] ([] @ [ToolDict ''{}'' (tc_id unknown_call)])
        (printed unknown_call example_state)"
    by blast
  then have "fst ?h = Inr [ToolDict ''{}'' ''call_7'', ToolDict ''{\"recorded\": \"ok\"}'' ''call_1'']"
    unfolding handle_tool_call_def
    by (simp add: run_defs unknown_call_def printed_def del: handle_tool_call_from.simps(2))
       (simp add: run_defs)
  then have both: "?h = (Inr [ToolDict ''{}'' ''call_7'', ToolDict ''{\"recorded\": \"ok\"}'' ''call_1''], snd ?h)"
    by (simp add: prod_eq_iff)
  from unbound valid main [where sys = ?sys and tool_call = unknown_call and rest = "[]"
      and results = "[]" and s = example_state]
  have "handle_tool_call ?sys [unknown_call] example_state =
      (Inr [ToolDict ''{}'' (tc_id unknown_call)], printed unknown_call example_state)"
    unfolding handle_tool_call_def by simp
  then have quiet: "posts_of (trace (snd (handle_tool_call ?sys [unknown_call] example_state))) = []"
    by (simp add: printed_def example_state_def)
  from unbound valid both quiet show ?thesis by blast
qed

subsection \<open>The caller's history\<close>

text \<open>
  Claim C9. \<^verbatim>\<open>chat\<close> never changes the list object \<open>history\<close> of its caller. It makes
  one new list object, the transcript of the turn, which starts as the system message,
  the elements of the history and the new user message; every append of the turn extends
  that list, and every list object that existed before the call, the history among them,
  holds after the call what it held before, however the turn ends.
\<close>

theorem chat_leaves_history_unchanged:
  assumes "chat sys self fuel message history s = (out, s')" and "history < fresh s"
  shows "heap s' history = heap s history \<and>
     (\<forall>a. a \<noteq> fresh s \<longrightarrow> heap s' a = heap s a) \<and>
     fresh s' = Suc (fresh s) \<and>
     heap (snd (chat sys self 0 message history s)) (fresh s) =
       [Dict ''system'' (system_prompt self)] @ heap s history @ [Dict ''user'' message] \<and>
     prefix ([Dict ''system'' (system_prompt self)] @ heap s history @ [Dict ''user'' message])
       (heap s' (fresh s))"
proof -
  define s0 where "s0 = s\<lparr>heap := (heap s)
      (fresh s := [Dict ''system'' (system_prompt self)] @ heap s history @ [Dict ''user'' message]),
      fresh := Suc (fresh s)\<rparr>"
  from assms(1) have "chat_loop sys fuel (fresh s) s0 = (out, s')"
    by (simp add: chat_def s0_def Let_def)
  from chat_loop_frame [OF this]
  have frame: "fresh s' = fresh s0" "\<forall>a. a \<noteq> fresh s \<longrightarrow> heap s' a = heap s0 a"
    "prefix (heap s0 (fresh s)) (heap s' (fresh s))"
    by simp_all
  have other: "\<forall>a. a \<noteq> fresh s \<longrightarrow> heap s' a = heap s a"
    using frame(2) by (simp add: s0_def)
  moreover from assms(2) have "history \<noteq> fresh s" by simp
  ultimately have "heap s' history = heap s history" by blast
  moreover have "heap (snd (chat sys self 0 message history s)) (fresh s) =
       [Dict ''system'' (system_prompt self)] @ heap s history @ [Dict ''user'' message]"
    by (simp add: chat_def Let_def)
  ultimately show ?thesis
    using other frame(1,3) by (simp add: s0_def)
qed

theorem chat_leaves_history_unchanged_witness:
  "(0::nat) < fresh example_history_state \<and>
   fst (chat (example_system example_env (example_answer [email_call]) (Inr 200))
      example_me (Suc (Suc (Suc 0))) ''My email is a@b.com'' 0 example_history_state) =
     Some (Inr (Some ''Thanks, I will be in touch!'')) \<and>
   heap (snd (chat (example_system example_env (example_answer [email_call]) (Inr 200))
      example_me (Suc (Suc (Suc 0))) ''My email is a@b.com'' 0 example_history_state)) 0 =
     [Dict ''user'' ''Hello'', Dict ''assistant'' ''Hi, how can I help?''] \<and>
   heap (snd (chat (example_system example_env (example_answer [email_call]) (Inr 200))
      example_me (Suc (Suc (Suc 0))) ''My email is a@b.com'' 0 example_history_state)) 1 =
     [Dict ''system'' (system_prompt example_me),
      Dict ''user'' ''Hello'', Dict ''assistant'' ''Hi, how can I help?'',
      Dict ''user'' ''My email is a@b.com'',
      Obj (CompletionMessage None (Some [email_call])),
      ToolDict ''{\"recorded\": \"ok\"}'' ''call_1'']"
proof -
  let ?sys = "example_system example_env (example_answer [email_call]) (Inr 200)"
  let ?run = "chat ?sys example_me (Suc (Suc (Suc 0))) ''My email is a@b.com'' 0 example_history_state"
  have old: "(0::nat) < fresh example_history_state"
    by (simp add: example_history_state_def)
  have run: "?run = (fst ?run, snd ?run)" by simp
  have ended: "fst ?run = Some (Inr (Some ''Thanks, I will be in touch!''))"
    by (simp add: run_defs example_history_state_def)
  from chat_leaves_history_unchanged [OF run old]
  have "heap (snd ?run) 0 = heap example_history_state 0" by blast
  then have kept: "heap (snd ?run) 0 = [Dict ''user'' ''Hello'', Dict ''assistant'' ''Hi, how can I help?'']"
    by (simp add: example_history_state_def)
  have transcript: "heap (snd ?run) 1 =
     [Dict ''system'' (system_prompt example_me),
      Dict ''user'' ''Hello'', Dict ''assistant'' ''Hi, how can I help?'',
      Dict ''user'' ''My email is a@b.com'',
      Obj (CompletionMessage None (Some [email_call])),
      ToolDict ''{\"recorded\": \"ok\"}'' ''call_1'']"
    by (simp add: run_defs example_history_state_def)
  from old ended kept transcript show ?thesis by blast
qed

end
